theory Spec2Isabelle
  imports Complex_Main "HOL-Library.Sublist"
begin

section \<open>JavaScript values\<close>

text \<open>
  The functions of the module \<^verbatim>\<open>index\<close> receive values that come out of \<^verbatim>\<open>JSON.parse\<close> or
  from a JavaScript caller; the guard \<^verbatim>\<open>isSourceMapV3(map: any)\<close> inspects them at run
  time.  A value is therefore modelled untyped.  An object is the list of its own
  properties, read with \<open>map_of\<close>.  A number is the value of the double.
\<close>

datatype jsval =
    JUndefined
  | JNull
  | JBool bool
  | JNum rat
  | JStr string
  | JArr "jsval list"
  | JObj "(string \<times> jsval) list"

text \<open>\<^verbatim>\<open>typeof v\<close>.\<close>

fun typeof :: "jsval \<Rightarrow> string" where
  "typeof JUndefined = ''undefined''"
| "typeof JNull = ''object''"
| "typeof (JBool b) = ''boolean''"
| "typeof (JNum n) = ''number''"
| "typeof (JStr s) = ''string''"
| "typeof (JArr xs) = ''object''"
| "typeof (JObj kvs) = ''object''"

text \<open>
  \<^verbatim>\<open>v[k]\<close> for a key \<open>k\<close> that is neither an array index, nor \<^verbatim>\<open>length\<close>, nor a
  property inherited from \<^verbatim>\<open>Object.prototype\<close> or \<^verbatim>\<open>Array.prototype\<close>
  (the code reads \<^verbatim>\<open>version\<close>, \<^verbatim>\<open>names\<close>, \<^verbatim>\<open>sources\<close>, \<^verbatim>\<open>sourcesContent\<close>,
  \<^verbatim>\<open>sourceRoot\<close> and \<^verbatim>\<open>file\<close> only), on a value that is not
  \<^verbatim>\<open>null\<close> or \<^verbatim>\<open>undefined\<close>: an absent property reads as \<^verbatim>\<open>undefined\<close>.
\<close>

fun get_prop :: "jsval \<Rightarrow> string \<Rightarrow> jsval" where
  "get_prop (JObj kvs) k = (case map_of kvs k of None \<Rightarrow> JUndefined | Some v \<Rightarrow> v)"
| "get_prop v k = JUndefined"

text \<open>\<^verbatim>\<open>k in v\<close>, for the same keys, on an object or an array.\<close>

fun has_prop :: "string \<Rightarrow> jsval \<Rightarrow> bool" where
  "has_prop k (JObj kvs) = (map_of kvs k \<noteq> None)"
| "has_prop k v = False"

text \<open>\<^verbatim>\<open>!v\<close> is \<open>\<not> truthy v\<close>.\<close>

fun truthy :: "jsval \<Rightarrow> bool" where
  "truthy JUndefined = False"
| "truthy JNull = False"
| "truthy (JBool b) = b"
| "truthy (JNum n) = (n \<noteq> 0)"
| "truthy (JStr s) = (s \<noteq> [])"
| "truthy (JArr xs) = True"
| "truthy (JObj kvs) = True"

section \<open>The data of the module \<^verbatim>\<open>index\<close>\<close>

text \<open>
  \<^verbatim>\<open>interface SourceMapV3\<close>: \<^verbatim>\<open>file?: string | null\<close>, \<^verbatim>\<open>names: string[]\<close>,
  \<^verbatim>\<open>sourceRoot?: string\<close>, \<^verbatim>\<open>sources: (string | null)[]\<close>,
  \<^verbatim>\<open>sourcesContent?: (string | null)[]\<close>, \<^verbatim>\<open>version: 3\<close>.  The record is the typed view
  of a value; the tag \<^verbatim>\<open>version\<close> is the constant 3 and is not stored.  \<open>None\<close> is an
  absent (or \<^verbatim>\<open>null\<close>) field or entry.  The field \<^verbatim>\<open>file\<close> is \<open>file'\<close> here.
\<close>

record SourceMapV3 =
  file' :: "string option"
  names :: "string list"
  sourceRoot :: "string option"
  sources :: "string option list"
  sourcesContent :: "string option list option"

text \<open>
  \<^verbatim>\<open>ReactVersion\<close> is declared in \<^verbatim>\<open>reactVersions.mjs\<close>; the code reads its fields
  \<^verbatim>\<open>filename\<close>, \<^verbatim>\<open>package\<close> and \<^verbatim>\<open>version\<close>.
\<close>

record ReactVersion =
  filename :: string
  package :: string
  version :: string

record RewriteSourcemapResult =
  outputSourcemap :: jsval
  rewroteSourcemap :: bool
  reactVersion :: "ReactVersion option"

text \<open>
  Every \<^verbatim>\<open>throw\<close> of the code, and the failures of what it calls; \<open>LibraryError\<close> is
  what the constructor of \<^verbatim>\<open>TraceMap\<close> throws (a \<^verbatim>\<open>TypeError\<close>, or
  \<^verbatim>\<open>invalid source map\<close>).
\<close>

datatype error =
    InvalidSourcemap
  | CannotFindFile string
  | ReadFileError string
  | JSONSyntaxError string
  | InvalidSourcemapFile string
  | CannotFindInInputSourcemap string
  | CannotFindSourceContents string
  | CannotFindVersion string
  | FailedToLoadExpectedSourcemap string string
  | LibraryError

text \<open>The lines the code writes with \<^verbatim>\<open>log\<close> when \<^verbatim>\<open>options.verbose\<close> is set.\<close>

datatype log_entry =
    LogLoadingSourcemapFrom string
  | LogSkippingSourcemap string
  | LogFoundInFile string string
  | LogFoundMatchingVersion string string
  | LogFoundMultipleVersions "string list"

text \<open>
  The tree that \<^verbatim>\<open>remapping\<close> builds before it traces the mappings: an unmodified
  source file (its name and content), or a sourcemap with one child per source.
\<close>

datatype tree =
    OriginalSource string "string option"
  | MapSource jsval "tree list"

text \<open>
  A decoded segment of the mappings of a sourcemap: the generated column and, unless the
  segment is sourceless, the index in \<^verbatim>\<open>sources\<close>, the original line, the original
  column and possibly an index in \<^verbatim>\<open>names\<close>.
\<close>

type_synonym segment = "nat \<times> (nat \<times> nat \<times> nat \<times> nat option) option"

text \<open>
  What the code takes from outside the module: the packages it imports, the file
  system, and the registry \<^verbatim>\<open>hashesToSourcemapDescriptors\<close> of
  \<^verbatim>\<open>reactVersions.mjs\<close>.  All of it is read only.
  \<^item> \<open>resolveUri input base\<close>: \<^verbatim>\<open>@jridgewell/resolve-uri\<close>;
  \<^item> \<open>sha256_hex data\<close>: \<^verbatim>\<open>createHash("sha256").update(data).digest("hex")\<close>;
  \<^item> \<open>hashesToSourcemapDescriptors\<close>: the registry, from a content hash to its entry;
  \<^item> \<open>existsSync\<close>, \<open>readFileSync\<close> (\<open>None\<close>: the read throws), \<open>JSON_parse\<close>
    (\<open>None\<close>: a \<^verbatim>\<open>SyntaxError\<close>), \<open>path_join\<close>, \<open>dirname\<close> (\<^verbatim>\<open>__dirname\<close>);
  \<^item> \<open>resolvedSource srcRoot mapUrl s\<close>: the name under which \<^verbatim>\<open>remapping\<close> presents the
    entry \<open>s\<close> of the \<^verbatim>\<open>sources\<close> of a sourcemap with \<^verbatim>\<open>sourceRoot\<close> \<open>srcRoot\<close> that
    was loaded for the file \<open>mapUrl\<close> (\<^verbatim>\<open>TraceMap.resolvedSources\<close>);
  \<^item> \<open>traceMappings t\<close>: the sourcemap that \<^verbatim>\<open>remapping\<close> composes from the tree;
  \<^item> \<open>decodedMappings d\<close>: the mappings of the document \<open>d\<close>, decoded, one list of
    segments for every generated line (\<^verbatim>\<open>decodedMappings\<close> of \<^verbatim>\<open>trace-mapping\<close>).  The
    code does not read it; it gives the statements about the mappings their meaning.
\<close>

record env =
  resolveUri :: "string \<Rightarrow> string \<Rightarrow> string"
  sha256_hex :: "string \<Rightarrow> string"
  hashesToSourcemapDescriptors :: "string \<Rightarrow> ReactVersion option"
  existsSync :: "string \<Rightarrow> bool"
  readFileSync :: "string \<Rightarrow> string option"
  JSON_parse :: "string \<Rightarrow> jsval option"
  path_join :: "string list \<Rightarrow> string"
  dirname :: string
  resolvedSource :: "string option \<Rightarrow> string \<Rightarrow> string option \<Rightarrow> string"
  traceMappings :: "tree \<Rightarrow> jsval"
  decodedMappings :: "jsval \<Rightarrow> segment list list"

text \<open>
  The two things a call of \<^verbatim>\<open>maybeRewriteSourcemapWithReactProd\<close> mutates: its local
  array \<^verbatim>\<open>reactVersions\<close> (\<^verbatim>\<open>push\<close> appends) and the console.
\<close>

record walk_state =
  reactVersions :: "ReactVersion list"
  console :: "log_entry list"

section \<open>Validation and loading\<close>

text \<open>\<^verbatim>\<open>resolve\<close> (borrowed from \<^verbatim>\<open>trace-mapping\<close>); the code calls it with base \<^verbatim>\<open>""\<close>.\<close>

definition endsWith :: "string \<Rightarrow> string \<Rightarrow> bool" where
  "endsWith s t = suffix t s"

definition resolve :: "env \<Rightarrow> string \<Rightarrow> string \<Rightarrow> string" where
  "resolve env input base =
     resolveUri env input (if base \<noteq> [] \<and> \<not> endsWith base ''/'' then base @ ''/'' else base)"

definition hashSHA256 :: "env \<Rightarrow> string \<Rightarrow> string" where
  "hashSHA256 env data = sha256_hex env data"

definition isSourceMapV3 :: "jsval \<Rightarrow> bool" where
  "isSourceMapV3 m =
     (typeof m = ''object'' \<and>
      m \<noteq> JNull \<and>
      get_prop m ''version'' = JNum 3 \<and>
      has_prop ''names'' m \<and>
      has_prop ''sources'' m)"

definition loadSourcemap :: "env \<Rightarrow> string \<Rightarrow> error + jsval" where
  "loadSourcemap env filePath =
     (if \<not> existsSync env filePath then Inl (CannotFindFile filePath)
      else
        (case readFileSync env filePath of
           None \<Rightarrow> Inl (ReadFileError filePath)
         | Some text \<Rightarrow>
             (case JSON_parse env text of
                None \<Rightarrow> Inl (JSONSyntaxError filePath)
              | Some maybeSourcemap \<Rightarrow>
                  if \<not> isSourceMapV3 maybeSourcemap then Inl (InvalidSourcemapFile filePath)
                  else Inr maybeSourcemap)))"

definition loadExistingSourcemap ::
  "env \<Rightarrow> ReactVersion \<Rightarrow> bool \<Rightarrow> log_entry list \<Rightarrow> error + (jsval \<times> log_entry list)" where
  "loadExistingSourcemap env versionEntry verbose out =
     (let fname = filename versionEntry @ ''.map'';
          filePath = path_join env
            [dirname env, ''../assets'', package versionEntry, version versionEntry, fname];
          out1 = (if verbose then out @ [LogLoadingSourcemapFrom filePath] else out)
      in case loadSourcemap env filePath of
           Inl e \<Rightarrow> Inl e
         | Inr sourcemap \<Rightarrow> Inr (sourcemap, out1))"

section \<open>The document as the call reads it\<close>

text \<open>
  The guard does not look at the shape of the fields.  After it, the code reads
  \<^verbatim>\<open>sources\<close> and \<^verbatim>\<open>sourcesContent\<close> of the document as the interface \<^verbatim>\<open>SourceMapV3\<close>
  declares them, and \<^verbatim>\<open>remapping\<close> builds a \<^verbatim>\<open>TraceMap\<close> from the document before it calls
  the loader.  \<open>as_SourceMapV3\<close> is the document as these two read it:
  \<^item> \<^verbatim>\<open>sources\<close> has to be an array (\<^verbatim>\<open>sources.map\<close>), and an entry a string or a falsy
    value (\<^verbatim>\<open>s || ''\<close>); a falsy entry other than the empty string is \<open>None\<close>, as
    \<^verbatim>\<open>null\<close> is;
  \<^item> \<^verbatim>\<open>sourceRoot\<close> has to be a string or a falsy value (\<^verbatim>\<open>sourceRoot || ''\<close>);
  \<^item> \<^verbatim>\<open>sourcesContent\<close> is read by index only: \<^verbatim>\<open>undefined\<close>, \<^verbatim>\<open>null\<close>, a number or a
    boolean have no entry at any index, a string has its characters, and the entries of
    an array are strings or falsy values;
  \<^item> \<^verbatim>\<open>mappings\<close> has to be a string or an array: otherwise the constructor of
    \<^verbatim>\<open>TraceMap\<close> throws \<^verbatim>\<open>invalid source map\<close>;
  \<^item> \<^verbatim>\<open>file\<close> and \<^verbatim>\<open>names\<close> are not read by the code and may be any value
    (\<^verbatim>\<open>names || []\<close>); the view keeps them when they have the declared shape, and has
    no file and no names otherwise.
  On any other value \<open>as_SourceMapV3\<close> is \<open>None\<close>: the library throws (a value without
  \<^verbatim>\<open>mappings\<close>, \<^verbatim>\<open>sources\<close> that is not an array, an entry or a \<^verbatim>\<open>sourceRoot\<close> that is
  truthy and not a string), or the value is a \<^verbatim>\<open>sourcesContent\<close> that is an object or
  holds a truthy entry that is not a string, which the model does not follow.
\<close>

fun as_string :: "jsval \<Rightarrow> string option" where
  "as_string (JStr s) = Some s"
| "as_string v = None"

fun as_string_or_null :: "jsval \<Rightarrow> string option option" where
  "as_string_or_null (JStr s) = Some (Some s)"
| "as_string_or_null JNull = Some None"
| "as_string_or_null v = None"

fun as_string_array :: "jsval \<Rightarrow> string list option" where
  "as_string_array (JArr xs) = those (map as_string xs)"
| "as_string_array v = None"

fun as_nullable_string_array :: "jsval \<Rightarrow> string option list option" where
  "as_nullable_string_array (JArr xs) = those (map as_string_or_null xs)"
| "as_nullable_string_array v = None"

text \<open>A value used as \<^verbatim>\<open>v || ''\<close> where a string is expected.\<close>

fun string_or_falsy :: "jsval \<Rightarrow> string option option" where
  "string_or_falsy (JStr s) = Some (Some s)"
| "string_or_falsy v = (if truthy v then None else Some None)"

fun read_sources :: "jsval \<Rightarrow> string option list option" where
  "read_sources (JArr xs) = those (map string_or_falsy xs)"
| "read_sources v = None"

fun read_sourcesContent :: "jsval \<Rightarrow> string option list option option" where
  "read_sourcesContent (JArr xs) = map_option Some (those (map string_or_falsy xs))"
| "read_sourcesContent (JStr s) = Some (Some (map (\<lambda>c. Some [c]) s))"
| "read_sourcesContent (JObj kvs) = None"
| "read_sourcesContent v = Some None"

fun has_mappings :: "jsval \<Rightarrow> bool" where
  "has_mappings (JStr s) = True"
| "has_mappings (JArr xs) = True"
| "has_mappings v = False"

definition as_SourceMapV3 :: "jsval \<Rightarrow> SourceMapV3 option" where
  "as_SourceMapV3 m =
     (if isSourceMapV3 m \<and> has_mappings (get_prop m ''mappings'')
      then
        (case (string_or_falsy (get_prop m ''sourceRoot''),
               read_sources (get_prop m ''sources''),
               read_sourcesContent (get_prop m ''sourcesContent'')) of
           (Some r, Some ss, Some sc) \<Rightarrow>
             Some \<lparr>file' = as_string (get_prop m ''file''),
                   names = (case as_string_array (get_prop m ''names'') of
                              None \<Rightarrow> []
                            | Some ns \<Rightarrow> ns),
                   sourceRoot = r, sources = ss, sourcesContent = sc\<rparr>
         | _ \<Rightarrow> None)
      else None)"

section \<open>The version matcher\<close>

text \<open>
  \<^verbatim>\<open>Array.prototype.findIndex\<close> and \<^verbatim>\<open>indexOf\<close>; the result \<^verbatim>\<open>-1\<close> of JavaScript is
  \<open>None\<close>.
\<close>

fun findIndex :: "('a \<Rightarrow> bool) \<Rightarrow> 'a list \<Rightarrow> nat option" where
  "findIndex P [] = None"
| "findIndex P (x # xs) = (if P x then Some 0 else map_option Suc (findIndex P xs))"

definition indexOf :: "'a list \<Rightarrow> 'a \<Rightarrow> nat option" where
  "indexOf xs x = findIndex (\<lambda>y. y = x) xs"

text \<open>The callback of the second pass: \<^verbatim>\<open>if (!filename) return false\<close>, then the comparison.\<close>

definition normalizedMatch :: "env \<Rightarrow> string \<Rightarrow> string option \<Rightarrow> bool" where
  "normalizedMatch env reactDomFilename entry =
     (case entry of
        None \<Rightarrow> False
      | Some fname \<Rightarrow>
          if fname = [] then False
          else (let normalizedPath = resolve env fname [] in normalizedPath = reactDomFilename))"

text \<open>The value of \<^verbatim>\<open>filenameIndex\<close> after the two passes (lines 336 to 346).\<close>

definition filenameIndex :: "env \<Rightarrow> string \<Rightarrow> SourceMapV3 \<Rightarrow> nat option" where
  "filenameIndex env reactDomFilename inputSourcemap =
     (case indexOf (sources inputSourcemap) (Some reactDomFilename) of
        Some i \<Rightarrow> Some i
      | None \<Rightarrow> findIndex (normalizedMatch env reactDomFilename) (sources inputSourcemap))"

text \<open>
  \<^verbatim>\<open>inputSourcemap.sourcesContent?.[i]\<close>: \<^verbatim>\<open>undefined\<close> without the array or past its
  end, \<^verbatim>\<open>null\<close> for a null entry; both are \<open>None\<close>.
\<close>

definition sourcesContentAt :: "SourceMapV3 \<Rightarrow> nat \<Rightarrow> string option" where
  "sourcesContentAt inputSourcemap i =
     (case sourcesContent inputSourcemap of
        None \<Rightarrow> None
      | Some cs \<Rightarrow> if i < length cs then cs ! i else None)"

definition findMatchingReactDOMVersion :: "env \<Rightarrow> string \<Rightarrow> SourceMapV3 \<Rightarrow> error + ReactVersion" where
  "findMatchingReactDOMVersion env reactDomFilename inputSourcemap =
     (case filenameIndex env reactDomFilename inputSourcemap of
        None \<Rightarrow> Inl (CannotFindInInputSourcemap reactDomFilename)
      | Some i \<Rightarrow>
          (case sourcesContentAt inputSourcemap i of
             None \<Rightarrow> Inl (CannotFindSourceContents reactDomFilename)
           | Some sourceContents \<Rightarrow>
               if sourceContents = [] then Inl (CannotFindSourceContents reactDomFilename)
               else
                 (case hashesToSourcemapDescriptors env (hashSHA256 env sourceContents) of
                    None \<Rightarrow> Inl (CannotFindVersion reactDomFilename)
                  | Some versionEntry \<Rightarrow> Inr versionEntry)))"

section \<open>The composer \<^verbatim>\<open>remapping\<close>\<close>

text \<open>
  \<^verbatim>\<open>remapping\<close> is the package \<^verbatim>\<open>@ampproject/remapping\<close> that the module imports; it
  is not code of the repository.  The model keeps of it what the entry point depends on.
  \<^verbatim>\<open>remapping(input, loader)\<close> calls the loader once for every source of the input, in
  the order of \<^verbatim>\<open>sources\<close>; when the loader returns a sourcemap it descends into it at
  once, with the same loader, before it goes on to the next source; when the loader
  returns \<^verbatim>\<open>null\<close> the source is a leaf.  The package has no handler around the call of
  the loader: what the loader throws leaves \<^verbatim>\<open>remapping\<close>.  How a source is named and
  how the mappings are composed are left open (\<open>resolvedSource\<close> and \<open>traceMappings\<close>
  of the environment); what the specification says of the composition is modelled apart,
  in \<open>composedMappings\<close>.  The loader is a function of the state it mutates.
  \<open>buildChildren\<close> walks the sources of one sourcemap, \<open>descend\<close> being the walk of a
  sourcemap that the loader returned.
\<close>

type_synonym 'st loader = "'st \<Rightarrow> string \<Rightarrow> error + (jsval option \<times> 'st)"

fun buildChildren ::
  "(jsval \<Rightarrow> string \<Rightarrow> 'st \<Rightarrow> (error + (tree \<times> 'st)) option) \<Rightarrow> 'st loader \<Rightarrow>
   (string \<times> string option) list \<Rightarrow> 'st \<Rightarrow> (error + (tree list \<times> 'st)) option" where
  "buildChildren descend loader [] st = Some (Inr ([], st))"
| "buildChildren descend loader ((source, content) # rest) st =
     (case loader st source of
        Inl e \<Rightarrow> Some (Inl e)
      | Inr (None, st1) \<Rightarrow>
          (case buildChildren descend loader rest st1 of
             None \<Rightarrow> None
           | Some (Inl e) \<Rightarrow> Some (Inl e)
           | Some (Inr (ts, st2)) \<Rightarrow> Some (Inr (OriginalSource source content # ts, st2)))
      | Inr (Some sourceMap, st1) \<Rightarrow>
          (case descend sourceMap source st1 of
             None \<Rightarrow> None
           | Some (Inl e) \<Rightarrow> Some (Inl e)
           | Some (Inr (t, st2)) \<Rightarrow>
               (case buildChildren descend loader rest st2 of
                  None \<Rightarrow> None
                | Some (Inl e) \<Rightarrow> Some (Inl e)
                | Some (Inr (ts, st3)) \<Rightarrow> Some (Inr (t # ts, st3)))))"

text \<open>The sources of a sourcemap as the walk meets them: resolved name and content.\<close>

definition children_of :: "env \<Rightarrow> SourceMapV3 \<Rightarrow> string \<Rightarrow> (string \<times> string option) list" where
  "children_of env m mapUrl =
     map (\<lambda>i. (resolvedSource env (sourceRoot m) mapUrl (sources m ! i), sourcesContentAt m i))
       [0 ..< length (sources m)]"

text \<open>
  The walk is recursive in the sourcemaps the loader returns and need not end; \<open>build\<close>
  takes the number of levels it may still open, and \<open>None\<close> is a walk that needs more.
  Building the \<^verbatim>\<open>TraceMap\<close> of a value that \<open>as_SourceMapV3\<close> does not read fails
  before the loader is called: this is \<open>LibraryError\<close>.
\<close>

primrec build ::
  "env \<Rightarrow> 'st loader \<Rightarrow> nat \<Rightarrow> jsval \<Rightarrow> string \<Rightarrow> 'st \<Rightarrow> (error + (tree \<times> 'st)) option" where
  "build env loader 0 = (\<lambda>sm mapUrl st. None)"
| "build env loader (Suc levels) = (\<lambda>sm mapUrl st.
     case as_SourceMapV3 sm of
       None \<Rightarrow> Some (Inl LibraryError)
     | Some m \<Rightarrow>
         (case buildChildren (build env loader levels) loader (children_of env m mapUrl) st of
            None \<Rightarrow> None
          | Some (Inl e) \<Rightarrow> Some (Inl e)
          | Some (Inr (ts, st1)) \<Rightarrow> Some (Inr (MapSource sm ts, st1))))"

definition remapping ::
  "env \<Rightarrow> 'st loader \<Rightarrow> nat \<Rightarrow> jsval \<Rightarrow> 'st \<Rightarrow> (error + (jsval \<times> 'st)) option" where
  "remapping env loader levels input st =
     (case build env loader levels input [] st of
        None \<Rightarrow> None
      | Some (Inl e) \<Rightarrow> Some (Inl e)
      | Some (Inr (t, st1)) \<Rightarrow> Some (Inr (traceMappings env t, st1)))"

section \<open>The entry point\<close>

text \<open>
  \<^verbatim>\<open>SUPPORTED_PACKAGES.exec(s)\<close>: the leftmost match of
  \<^verbatim>\<open>/(react-dom\.profiling\.min\.js|react-dom\.production\.min\.js)/\<close>, \<open>None\<close> for
  \<^verbatim>\<open>null\<close>.
\<close>

fun SUPPORTED_PACKAGES_exec :: "string \<Rightarrow> string option" where
  "SUPPORTED_PACKAGES_exec [] = None"
| "SUPPORTED_PACKAGES_exec (c # s) =
     (if prefix ''react-dom.profiling.min.js'' (c # s) then Some ''react-dom.profiling.min.js''
      else if prefix ''react-dom.production.min.js'' (c # s) then Some ''react-dom.production.min.js''
      else SUPPORTED_PACKAGES_exec s)"

text \<open>
  The callback that the entry point passes to \<^verbatim>\<open>remapping\<close> (lines 391 to 425);
  \<^verbatim>\<open>remapping\<close> calls it with \<^verbatim>\<open>file = ctx.source\<close>.  The call of
  \<^verbatim>\<open>findMatchingReactDOMVersion\<close> stands in no \<^verbatim>\<open>try\<close>: what it throws leaves the
  callback.  It returns a \<^verbatim>\<open>ReactVersion\<close> or throws, so the branch
  \<^verbatim>\<open>if (!versionEntry) { ... return null; }\<close> of lines 403 to 410 is never taken, and
  it has no counterpart here.
\<close>

definition loader :: "env \<Rightarrow> bool \<Rightarrow> SourceMapV3 \<Rightarrow> walk_state loader" where
  "loader env verbose inputSourcemap st file_name =
     (case SUPPORTED_PACKAGES_exec file_name of
        None \<Rightarrow>
          Inr (None,
            if verbose then st\<lparr>console := console st @ [LogSkippingSourcemap file_name]\<rparr> else st)
      | Some matchedPackage \<Rightarrow>
          (let st1 = (if verbose
                      then st\<lparr>console := console st @ [LogFoundInFile matchedPackage file_name]\<rparr>
                      else st)
           in case findMatchingReactDOMVersion env file_name inputSourcemap of
                Inl e \<Rightarrow> Inl e
              | Inr versionEntry \<Rightarrow>
                  (let st2 = st1\<lparr>reactVersions := reactVersions st1 @ [versionEntry]\<rparr>;
                       st3 = (if verbose
                              then st2\<lparr>console := console st2 @
                                     [LogFoundMatchingVersion matchedPackage (version versionEntry)]\<rparr>
                              else st2)
                   in case loadExistingSourcemap env versionEntry False (console st3) of
                        Inl e \<Rightarrow> Inl e
                      | Inr (sourcemap, out) \<Rightarrow>
                          if \<not> truthy sourcemap \<or> \<not> isSourceMapV3 sourcemap
                          then Inl (FailedToLoadExpectedSourcemap matchedPackage (version versionEntry))
                          else Inr (Some sourcemap, st3\<lparr>console := out\<rparr>))))"

text \<open>
  \<^verbatim>\<open>maybeRewriteSourcemapWithReactProd(inputSourcemap, options)\<close>, \<open>verbose\<close> being
  \<^verbatim>\<open>options.verbose\<close>.  The result is \<open>None\<close> when the walk needs more than \<open>levels\<close>
  levels, \<open>Some (Inl e)\<close> when the call throws, and otherwise the returned record with
  the lines written to the console.  The callback reads the document through
  \<open>as_SourceMapV3\<close>; for a value that passes the guard and that \<open>as_SourceMapV3\<close> does
  not read, \<^verbatim>\<open>remapping\<close> fails before it calls the callback, as in \<open>build\<close>.
\<close>

definition maybeRewriteSourcemapWithReactProd ::
  "env \<Rightarrow> nat \<Rightarrow> jsval \<Rightarrow> bool \<Rightarrow> (error + (RewriteSourcemapResult \<times> log_entry list)) option" where
  "maybeRewriteSourcemapWithReactProd env levels inputSourcemap verbose =
     (if \<not> isSourceMapV3 inputSourcemap then Some (Inl InvalidSourcemap)
      else
        (case as_SourceMapV3 inputSourcemap of
           None \<Rightarrow> Some (Inl LibraryError)
         | Some m \<Rightarrow>
             (case remapping env (loader env verbose m) levels inputSourcemap
                     \<lparr>reactVersions = [], console = []\<rparr> of
                None \<Rightarrow> None
              | Some (Inl e) \<Rightarrow> Some (Inl e)
              | Some (Inr (remapped, st)) \<Rightarrow>
                  (let out = (if length (reactVersions st) > 1 \<and> verbose
                              then console st @
                                [LogFoundMultipleVersions (map version (reactVersions st))]
                              else console st)
                   in Some (Inr (\<lparr>outputSourcemap = remapped,
                                  rewroteSourcemap = (length (reactVersions st) > 0),
                                  reactVersion = (case reactVersions st of
                                                    [] \<Rightarrow> None
                                                  | v # vs \<Rightarrow> Some v)\<rparr>,
                                 out))))))"

section \<open>Notions used in the statements\<close>

text \<open>A source that the loader does not replace becomes a leaf of the tree.\<close>

fun leaf :: "string \<times> string option \<Rightarrow> tree" where
  "leaf (source, content) = OriginalSource source content"

text \<open>The state in which the entry point starts the walk.\<close>

definition initial_state :: walk_state where
  "initial_state = \<lparr>reactVersions = [], console = []\<rparr>"

text \<open>The result of a call without the lines written to the console.\<close>

definition returned ::
  "(error + (RewriteSourcemapResult \<times> log_entry list)) option \<Rightarrow>
   (error + RewriteSourcemapResult) option" where
  "returned x = map_option (map_sum id fst) x"

text \<open>The names of the leaves of a tree, from left to right.\<close>

fun leaf_names :: "tree \<Rightarrow> string list" where
  "leaf_names (OriginalSource source content) = [source]"
| "leaf_names (MapSource sm ts) = concat (map leaf_names ts)"


text \<open>
  The candidate occurs at position \<open>i\<close> of the sources, exactly or after normalization.
\<close>

definition occursAt :: "env \<Rightarrow> string \<Rightarrow> SourceMapV3 \<Rightarrow> nat \<Rightarrow> bool" where
  "occursAt env reactDomFilename inputSourcemap i =
     (i < length (sources inputSourcemap) \<and>
      (sources inputSourcemap ! i = Some reactDomFilename \<or>
       normalizedMatch env reactDomFilename (sources inputSourcemap ! i)))"

section \<open>The composition of mappings\<close>

text \<open>
  The composition of the mappings is the work of the package \<^verbatim>\<open>@ampproject/remapping\<close>
  and is not among the source files.  The definitions of this section follow the
  specification of the Sourcemap Composer (section 4.3): a position of the output that
  pointed into a reference for which a replacement was returned points through the
  replacement to the original position recorded there; a position that pointed into a
  reference without replacement is left as it is.  A position is a source name, a line,
  a column and possibly a symbol name.
\<close>

type_synonym position = "string \<times> nat \<times> nat \<times> string option"

text \<open>
  Modelled from the spec: the segment recorded for a line and a column, which is the last
  segment of the line that starts at or before the column (the segments of a line are in
  the order of their columns).
\<close>

definition recorded :: "(nat \<times> 'a) list list \<Rightarrow> nat \<Rightarrow> nat \<Rightarrow> (nat \<times> 'a) option" where
  "recorded ls line column =
     (if line < length ls
      then (case filter (\<lambda>seg. fst seg \<le> column) (ls ! line) of
              [] \<Rightarrow> None
            | seg # segs \<Rightarrow> Some (last (seg # segs)))
      else None)"

text \<open>
  Modelled from the spec: the symbol name of a segment, taken from \<^verbatim>\<open>names\<close> of the
  sourcemap that holds the segment.
\<close>

definition name_at :: "SourceMapV3 \<Rightarrow> nat option \<Rightarrow> string option" where
  "name_at m ni =
     (case ni of
        None \<Rightarrow> None
      | Some k \<Rightarrow> if k < length (names m) then Some (names m ! k) else None)"

definition name_of :: "jsval \<Rightarrow> nat option \<Rightarrow> string option" where
  "name_of sm ni = (case as_SourceMapV3 sm of None \<Rightarrow> None | Some m \<Rightarrow> name_at m ni)"

text \<open>
  Modelled from the spec: where a position of a source of the tree points in the end,
  which is the position itself for a leaf, and through the recorded segment for a
  sourcemap; \<open>None\<close> when nothing is recorded or the index in \<^verbatim>\<open>sources\<close> is out of
  range, \<open>Some None\<close> when the recorded segment is sourceless.
\<close>

function originalPosition ::
  "(jsval \<Rightarrow> segment list list) \<Rightarrow> tree \<Rightarrow> nat \<Rightarrow> nat \<Rightarrow> string option \<Rightarrow> position option option" where
  "originalPosition dec (OriginalSource source content) line column name =
     Some (Some (source, line, column, name))"
| "originalPosition dec (MapSource sm ts) line column name =
     (case recorded (dec sm) line column of
        None \<Rightarrow> None
      | Some (gc, None) \<Rightarrow> Some None
      | Some (gc, Some (k, l, c, ni)) \<Rightarrow>
          if k < length ts
          then originalPosition dec (ts ! k) l c
                 (case ni of None \<Rightarrow> name | Some i \<Rightarrow> name_of sm ni)
          else None)"
  by pat_completeness auto
termination
proof (relation "measure (\<lambda>(dec, t, line, column, name). size t)")
  show "wf (measure (\<lambda>(dec, t, line, column, name). size t))" by simp
next
  fix dec :: "jsval \<Rightarrow> segment list list" and sm and ts :: "tree list"
    and line column :: nat and name :: "string option"
    and x2 :: segment and gc :: nat and x2a :: "(nat \<times> nat \<times> nat \<times> nat option) option"
    and x2b :: "nat \<times> nat \<times> nat \<times> nat option"
    and k :: nat and y :: "nat \<times> nat \<times> nat option" and l :: nat
    and ya :: "nat \<times> nat option" and c :: nat and ni :: "nat option"
  assume "k < length ts"
  then have "size (ts ! k) \<le> size_list size ts"
    by (meson nth_mem size_list_estimation' order_refl)
  then show "((dec, ts ! k, l, c, case ni of None \<Rightarrow> name | Some i \<Rightarrow> name_of sm ni),
              dec, MapSource sm ts, line, column, name)
             \<in> measure (\<lambda>(dec, t, line, column, name). size t)"
    by simp
qed

text \<open>
  Modelled from the spec: the mappings of the composed document, which are the segments of
  the root sourcemap, each pointing where its original position points in the end; a
  segment that points nowhere is left out.
\<close>

fun composedMappings ::
  "(jsval \<Rightarrow> segment list list) \<Rightarrow> tree \<Rightarrow> (nat \<times> position option) list list" where
  "composedMappings dec (OriginalSource source content) = []"
| "composedMappings dec (MapSource sm ts) =
     map (List.map_filter
            (\<lambda>(gc, target).
               case target of
                 None \<Rightarrow> Some (gc, None)
               | Some (k, l, c, ni) \<Rightarrow>
                   if k < length ts
                   then map_option (Pair gc) (originalPosition dec (ts ! k) l c (name_of sm ni))
                   else None))
       (dec sm)"



section \<open>A concrete environment\<close>

text \<open>
  One registered release, whose sourcemap is stored where \<open>loadExistingSourcemap\<close> looks
  for it, one file that holds a value with \<^verbatim>\<open>version\<close> 3 whose \<^verbatim>\<open>names\<close> and
  \<^verbatim>\<open>sources\<close> are numbers, and one that holds a sourcemap of version 2.  The functions
  stand for the packages on the inputs used here: \<open>sample_resolveUri\<close> removes the segment \<^verbatim>\<open>./\<close> of the one name that has it,
  leaves a name with a scheme as it is and puts the base before any other name;
  \<open>sample_resolvedSource\<close> resolves an entry against the \<^verbatim>\<open>sourceRoot\<close> and the
  directory of the file the sourcemap was loaded for, as \<^verbatim>\<open>TraceMap\<close> does.
\<close>

definition sample_version :: ReactVersion where
  "sample_version =
     \<lparr>filename = ''react-dom.production.min.js'', package = ''react-dom'', version = ''18.2.0''\<rparr>"

fun has_scheme :: "string \<Rightarrow> bool" where
  "has_scheme [] = False"
| "has_scheme (c # s) = (prefix ''://'' (c # s) \<or> has_scheme s)"

definition sample_resolveUri :: "string \<Rightarrow> string \<Rightarrow> string" where
  "sample_resolveUri input base =
     (if input = ''webpack://x/./react-dom.production.min.js''
      then ''webpack://x/react-dom.production.min.js''
      else if has_scheme input then input
      else base @ input)"

fun stripFilename :: "string \<Rightarrow> string" where
  "stripFilename p = rev (dropWhile (\<lambda>c. c \<noteq> CHR ''/'') (rev p))"

definition sample_resolvedSource ::
  "(string \<Rightarrow> string \<Rightarrow> string) \<Rightarrow> string option \<Rightarrow> string \<Rightarrow> string option \<Rightarrow> string" where
  "sample_resolvedSource uri srcRoot mapUrl s =
     (let res = (\<lambda>input base.
            uri input (if base \<noteq> [] \<and> \<not> endsWith base ''/'' then base @ ''/'' else base));
          base = res (case srcRoot of None \<Rightarrow> [] | Some r \<Rightarrow> r) (stripFilename mapUrl)
      in res (case s of None \<Rightarrow> [] | Some n \<Rightarrow> n) base)"

definition sample_stored_map :: jsval where
  "sample_stored_map =
     JObj [(''version'', JNum 3), (''names'', JArr []),
           (''sources'', JArr [JStr ''react-dom.production.js'']),
           (''mappings'', JArr [JArr [JArr [JNum 0, JNum 0, JNum 0, JNum 0]]])]"

definition sample_illtyped_map :: jsval where
  "sample_illtyped_map = JObj [(''version'', JNum 3), (''names'', JNum 5), (''sources'', JNum 7)]"

definition sample_v2_map :: jsval where
  "sample_v2_map = JObj [(''version'', JNum 2), (''names'', JArr []), (''sources'', JArr [])]"

text \<open>
  The mappings of the documents used here are written decoded, as arrays of lines of
  segments of numbers (the library takes them so as well as encoded in a string);
  \<open>sample_decodedMappings\<close> reads them, and \<open>sample_traceMappings\<close> writes the composed
  mappings of a tree in the same form, with the leaves of the tree as \<^verbatim>\<open>sources\<close>.
\<close>

fun as_nat :: "jsval \<Rightarrow> nat" where
  "as_nat (JNum q) = nat \<lfloor>q\<rfloor>"
| "as_nat v = 0"

fun sample_segment :: "jsval list \<Rightarrow> segment option" where
  "sample_segment [a] = Some (as_nat a, None)"
| "sample_segment [a, b, c, d] = Some (as_nat a, Some (as_nat b, as_nat c, as_nat d, None))"
| "sample_segment [a, b, c, d, e] =
     Some (as_nat a, Some (as_nat b, as_nat c, as_nat d, Some (as_nat e)))"
| "sample_segment vs = None"

fun sample_line :: "jsval \<Rightarrow> segment list" where
  "sample_line (JArr segs) =
     List.map_filter (\<lambda>v. case v of JArr vs \<Rightarrow> sample_segment vs | _ \<Rightarrow> None) segs"
| "sample_line v = []"

definition sample_decodedMappings :: "jsval \<Rightarrow> segment list list" where
  "sample_decodedMappings d =
     (case get_prop d ''mappings'' of JArr ls \<Rightarrow> map sample_line ls | _ \<Rightarrow> [])"

definition index_in :: "'a list \<Rightarrow> 'a \<Rightarrow> nat" where
  "index_in xs x = (case indexOf xs x of None \<Rightarrow> 0 | Some i \<Rightarrow> i)"

definition sample_names :: "(nat \<times> position option) list list \<Rightarrow> string list" where
  "sample_names ls =
     remdups (List.map_filter
                (\<lambda>seg. case seg of (gc, None) \<Rightarrow> None | (gc, Some (source, l, c, name)) \<Rightarrow> name)
                (concat ls))"

definition sample_encoded ::
  "string list \<Rightarrow> string list \<Rightarrow> nat \<times> position option \<Rightarrow> jsval" where
  "sample_encoded srcs ns seg =
     (case seg of
        (gc, None) \<Rightarrow> JArr [JNum (of_nat gc)]
      | (gc, Some (source, l, c, None)) \<Rightarrow>
          JArr [JNum (of_nat gc), JNum (of_nat (index_in srcs source)),
                JNum (of_nat l), JNum (of_nat c)]
      | (gc, Some (source, l, c, Some name)) \<Rightarrow>
          JArr [JNum (of_nat gc), JNum (of_nat (index_in srcs source)),
                JNum (of_nat l), JNum (of_nat c), JNum (of_nat (index_in ns name))])"

definition sample_traceMappings :: "tree \<Rightarrow> jsval" where
  "sample_traceMappings t =
     (let ls = composedMappings sample_decodedMappings t
      in JObj [(''version'', JNum 3), (''names'', JArr (map JStr (sample_names ls))),
               (''sources'', JArr (map JStr (leaf_names t))),
               (''mappings'',
                JArr (map (\<lambda>line. JArr (map (sample_encoded (leaf_names t) (sample_names ls)) line))
                        ls))])"

definition sample_env :: env where
  "sample_env =
     \<lparr>resolveUri = sample_resolveUri,
      sha256_hex = (\<lambda>data. ''sha256 of '' @ data),
      hashesToSourcemapDescriptors =
        (\<lambda>h. if h = ''sha256 of react-dom 18.2.0 min'' then Some sample_version else None),
      existsSync = (\<lambda>p. p = ''/pkg/dist/../assets/react-dom/18.2.0/react-dom.production.min.js.map''
                       \<or> p = ''/tmp/illtyped.map'' \<or> p = ''/tmp/v2.map''),
      readFileSync =
        (\<lambda>p. if p = ''/pkg/dist/../assets/react-dom/18.2.0/react-dom.production.min.js.map''
             then Some ''stored''
             else if p = ''/tmp/illtyped.map'' then Some ''illtyped''
             else if p = ''/tmp/v2.map'' then Some ''v2'' else None),
      JSON_parse =
        (\<lambda>t. if t = ''stored'' then Some sample_stored_map
             else if t = ''illtyped'' then Some sample_illtyped_map
             else if t = ''v2'' then Some sample_v2_map else None),
      path_join = (\<lambda>parts. case parts of [] \<Rightarrow> ''.'' | p # ps \<Rightarrow> p @ concat (map (\<lambda>q. ''/'' @ q) ps)),
      dirname = ''/pkg/dist'',
      resolvedSource = sample_resolvedSource sample_resolveUri,
      traceMappings = sample_traceMappings,
      decodedMappings = sample_decodedMappings\<rparr>"

text \<open>Input documents: a source list and the parallel contents.\<close>

definition sample_doc :: "string list \<Rightarrow> jsval list \<Rightarrow> jsval" where
  "sample_doc srcs contents =
     JObj [(''version'', JNum 3), (''names'', JArr []), (''sources'', JArr (map JStr srcs)),
           (''sourcesContent'', JArr contents),
           (''mappings'', JArr [JArr [JArr [JNum 0, JNum 0, JNum 0, JNum 0]]])]"

text \<open>
  A document that lists one file under two spellings, the second being the normalized
  form of the first, with different contents; only the second content is registered.
\<close>

definition sample_two_spellings :: SourceMapV3 where
  "sample_two_spellings =
     \<lparr>file' = None, names = [], sourceRoot = None,
      sources = [Some ''webpack://x/./react-dom.production.min.js'',
                 Some ''webpack://x/react-dom.production.min.js''],
      sourcesContent = Some [Some ''another build'', Some ''react-dom 18.2.0 min'']\<rparr>"

text \<open>A document whose only source has the empty string as its content.\<close>

definition sample_empty_content :: SourceMapV3 where
  "sample_empty_content =
     \<lparr>file' = None, names = [], sourceRoot = None,
      sources = [Some ''webpack://x/react-dom.production.min.js''],
      sourcesContent = Some [Some []]\<rparr>"

text \<open>A document whose only source is written without a protocol prefix.\<close>

definition sample_relative :: SourceMapV3 where
  "sample_relative =
     \<lparr>file' = None, names = [], sourceRoot = None,
      sources = [Some ''./node_modules/react-dom/cjs/react-dom.production.min.js''],
      sourcesContent = Some [Some ''react-dom 18.2.0 min'']\<rparr>"

text \<open>
  A document with a \<^verbatim>\<open>sourceRoot\<close>: the walk presents its source under the name
  \<^verbatim>\<open>webpack://x/react-dom.production.min.js\<close>, which the source list does not hold.
\<close>

definition sample_with_root :: jsval where
  "sample_with_root =
     JObj [(''version'', JNum 3), (''names'', JArr []), (''sourceRoot'', JStr ''webpack://x/''),
           (''sources'', JArr [JStr ''react-dom.production.min.js'']),
           (''sourcesContent'', JArr [JStr ''react-dom 18.2.0 min'']),
           (''mappings'', JArr [JArr [JArr [JNum 0, JNum 0, JNum 0, JNum 0]]])]"

text \<open>
  Documents with one source that matches the pattern: its content is \<^verbatim>\<open>null\<close>, is not
  registered, or is registered (with a second source that does not match).
\<close>

definition sample_url :: string where
  "sample_url = ''webpack://x/node_modules/react-dom/cjs/react-dom.production.min.js''"

definition sample_missing_content :: jsval where
  "sample_missing_content = sample_doc [sample_url] [JNull]"

definition sample_unknown_version :: jsval where
  "sample_unknown_version = sample_doc [sample_url] [JStr ''an unregistered build'']"

definition sample_registered :: jsval where
  "sample_registered =
     sample_doc [sample_url, ''webpack://x/src/index.js'']
       [JStr ''react-dom 18.2.0 min'', JStr ''console.log(1)'']"


section \<open>Facts about the helpers\<close>

lemmas sample_defs = sample_env_def sample_doc_def sample_version_def sample_resolveUri_def
  sample_resolvedSource_def sample_stored_map_def sample_illtyped_map_def sample_v2_map_def
  sample_traceMappings_def

lemma findIndex_None_iff: "findIndex P xs = None \<longleftrightarrow> (\<forall>x\<in>set xs. \<not> P x)"
  by (induction xs) auto

lemma findIndex_Some_iff:
  "findIndex P xs = Some i \<longleftrightarrow> i < length xs \<and> P (xs ! i) \<and> (\<forall>j<i. \<not> P (xs ! j))"
proof (induction xs arbitrary: i)
  case Nil
  then show ?case by simp
next
  case (Cons x xs)
  show ?case
  proof (cases "P x")
    case True
    then show ?thesis by (cases i) auto
  next
    case False
    then show ?thesis
      by (cases i) (auto simp: Cons.IH nth_Cons' less_Suc_eq_0_disj split: if_splits)
  qed
qed

lemma isSourceMapV3_iff:
  "isSourceMapV3 v \<longleftrightarrow>
     (\<exists>kvs. v = JObj kvs \<and> map_of kvs ''version'' = Some (JNum 3) \<and>
        ''names'' \<in> fst ` set kvs \<and> ''sources'' \<in> fst ` set kvs)"
  by (cases v)
     (auto simp: isSourceMapV3_def dom_map_of_conv_image_fst[symmetric] domIff
           split: option.splits)

lemma as_SourceMapV3_isSourceMapV3:
  "as_SourceMapV3 v = Some m \<Longrightarrow> isSourceMapV3 v"
  apply (cases v)
        apply (auto simp: as_SourceMapV3_def isSourceMapV3_def split: option.splits if_splits)
  done

section \<open>Which errors leave the walk\<close>

lemma buildChildren_error:
  assumes ld: "\<And>st f e. l st f = Inl e \<Longrightarrow> P e"
    and d: "\<And>sm u st e. descend sm u st = Some (Inl e) \<Longrightarrow> P e"
  shows "buildChildren descend l xs st = Some (Inl e) \<Longrightarrow> P e"
proof (induction xs arbitrary: st)
  case Nil
  then show ?case by simp
next
  case (Cons x xs)
  obtain source content where x: "x = (source, content)" by (cases x)
  from Cons.prems show ?case
    unfolding x
    by (auto split: sum.splits option.splits prod.splits dest: ld d Cons.IH)
qed

lemma build_error:
  assumes ld: "\<And>st f e. l st f = Inl e \<Longrightarrow> P e"
    and lib: "P LibraryError"
  shows "build env l n sm u st = Some (Inl e) \<Longrightarrow> P e"
proof (induction n arbitrary: sm u st e)
  case 0
  then show ?case by simp
next
  case (Suc n)
  have ch: "buildChildren (build env l n) l xs st = Some (Inl e) \<Longrightarrow> P e" for xs
    by (rule buildChildren_error[where P = P and l = l and descend = "build env l n"])
       (auto dest: ld Suc.IH)
  from Suc.prems show ?case
    by (auto split: option.splits sum.splits prod.splits dest: ch simp: lib)
qed

lemma loadSourcemap_error:
  "loadSourcemap env p = Inl e \<Longrightarrow> e \<noteq> InvalidSourcemap"
  by (auto simp: loadSourcemap_def split: if_splits option.splits)

lemma loader_error_not_InvalidSourcemap:
  "loader env verbose m st f = Inl e \<Longrightarrow> e \<noteq> InvalidSourcemap"
  by (auto simp: loader_def findMatchingReactDOMVersion_def loadExistingSourcemap_def Let_def
           split: option.splits sum.splits if_splits prod.splits
           dest: loadSourcemap_error)

section \<open>Validation: claim C2\<close>

text \<open>
  C2, as amended.  The guard accepts exactly the objects whose \<^verbatim>\<open>version\<close> is the
  number 3 and that have a property \<^verbatim>\<open>names\<close> and a property \<^verbatim>\<open>sources\<close>, whatever
  the values of the two are: \<^verbatim>\<open>null\<close>, \<^verbatim>\<open>undefined\<close>, a value that is not an object, a
  \<^verbatim>\<open>version\<close> other than 3 and a missing \<^verbatim>\<open>names\<close> or \<^verbatim>\<open>sources\<close> are refused, and
  the shape of \<^verbatim>\<open>names\<close> and \<^verbatim>\<open>sources\<close> is not looked at.  The entry point throws
  \<^verbatim>\<open>Invalid sourcemap\<close> exactly on the values the guard refuses, and \<^verbatim>\<open>loadSourcemap\<close>,
  on a file that exists and parses to \<open>v\<close>, returns \<open>v\<close> when the guard accepts it and
  throws otherwise.
\<close>

theorem C2_validation_checks_presence_only:
  "(isSourceMapV3 v \<longleftrightarrow>
      (\<exists>kvs. v = JObj kvs \<and> map_of kvs ''version'' = Some (JNum 3) \<and>
         ''names'' \<in> fst ` set kvs \<and> ''sources'' \<in> fst ` set kvs)) \<and>
   (\<not> isSourceMapV3 v \<longrightarrow>
      maybeRewriteSourcemapWithReactProd env levels v verbose = Some (Inl InvalidSourcemap)) \<and>
   (isSourceMapV3 v \<longrightarrow>
      maybeRewriteSourcemapWithReactProd env levels v verbose \<noteq> Some (Inl InvalidSourcemap)) \<and>
   (existsSync env p \<and> readFileSync env p = Some t \<and> JSON_parse env t = Some v \<longrightarrow>
      loadSourcemap env p = (if isSourceMapV3 v then Inr v else Inl (InvalidSourcemapFile p)))"
proof (intro conjI impI)
  show "isSourceMapV3 v \<longleftrightarrow>
      (\<exists>kvs. v = JObj kvs \<and> map_of kvs ''version'' = Some (JNum 3) \<and>
         ''names'' \<in> fst ` set kvs \<and> ''sources'' \<in> fst ` set kvs)"
    by (rule isSourceMapV3_iff)
next
  assume "\<not> isSourceMapV3 v"
  then show "maybeRewriteSourcemapWithReactProd env levels v verbose = Some (Inl InvalidSourcemap)"
    by (simp add: maybeRewriteSourcemapWithReactProd_def)
next
  assume ok: "isSourceMapV3 v"
  show "maybeRewriteSourcemapWithReactProd env levels v verbose \<noteq> Some (Inl InvalidSourcemap)"
  proof
    assume bad: "maybeRewriteSourcemapWithReactProd env levels v verbose = Some (Inl InvalidSourcemap)"
    then obtain m where m: "as_SourceMapV3 v = Some m"
      and b: "build env (loader env verbose m) levels v [] \<lparr>reactVersions = [], console = []\<rparr>
                = Some (Inl InvalidSourcemap)"
      using ok
      by (auto simp: maybeRewriteSourcemapWithReactProd_def remapping_def Let_def
               split: option.splits sum.splits prod.splits)
    have "InvalidSourcemap \<noteq> InvalidSourcemap"
      by (rule build_error[where P = "\<lambda>e. e \<noteq> InvalidSourcemap", OF _ _ b])
         (auto dest: loader_error_not_InvalidSourcemap)
    then show False by simp
  qed
next
  assume "existsSync env p \<and> readFileSync env p = Some t \<and> JSON_parse env t = Some v"
  then show "loadSourcemap env p = (if isSourceMapV3 v then Inr v else Inl (InvalidSourcemapFile p))"
    by (simp add: loadSourcemap_def)
qed

theorem C2_witness:
  "\<not> isSourceMapV3 JNull \<and>
   maybeRewriteSourcemapWithReactProd sample_env 1 JNull False = Some (Inl InvalidSourcemap) \<and>
   \<not> isSourceMapV3 sample_v2_map \<and>
   loadSourcemap sample_env ''/tmp/v2.map'' = Inl (InvalidSourcemapFile ''/tmp/v2.map'') \<and>
   isSourceMapV3 sample_stored_map \<and>
   maybeRewriteSourcemapWithReactProd sample_env 1 sample_stored_map False \<noteq> Some (Inl InvalidSourcemap)"
  using C2_validation_checks_presence_only[of JNull sample_env 1 False "''/tmp/v2.map''" "''v2''"]
    C2_validation_checks_presence_only[of sample_v2_map sample_env 1 False "''/tmp/v2.map''" "''v2''"]
    C2_validation_checks_presence_only[of sample_stored_map sample_env 1 False "''/tmp/v2.map''" "''v2''"]
  by (simp add: sample_env_def sample_v2_map_def sample_stored_map_def isSourceMapV3_def)

text \<open>
  C2 as the specification states it fails: a value with \<^verbatim>\<open>version\<close> 3 whose \<^verbatim>\<open>names\<close>
  and \<^verbatim>\<open>sources\<close> are numbers has neither field in the required shape, yet the guard
  accepts it and \<^verbatim>\<open>loadSourcemap\<close> returns it.
\<close>

theorem C2_counterexample:
  "as_string_array (get_prop sample_illtyped_map ''names'') = None \<and>
   as_nullable_string_array (get_prop sample_illtyped_map ''sources'') = None \<and>
   isSourceMapV3 sample_illtyped_map \<and>
   loadSourcemap sample_env ''/tmp/illtyped.map'' = Inr sample_illtyped_map"
  by (simp add: sample_env_def sample_illtyped_map_def isSourceMapV3_def loadSourcemap_def)

section \<open>The two passes of the matcher: claims C5, C8 and C9\<close>

lemma findIndex_cong_set:
  "(\<And>x. x \<in> set xs \<Longrightarrow> P x = Q x) \<Longrightarrow> findIndex P xs = findIndex Q xs"
  by (induction xs) auto

lemma resolve_empty_base: "resolve env f [] = resolveUri env f []"
  by (simp add: resolve_def)

lemma normalizedMatch_iff:
  "normalizedMatch env c e \<longleftrightarrow> (\<exists>f. e = Some f \<and> f \<noteq> [] \<and> resolve env f [] = c)"
  by (cases e) (auto simp: normalizedMatch_def)

lemma indexOf_None_iff: "indexOf xs x = None \<longleftrightarrow> x \<notin> set xs"
  by (auto simp: indexOf_def findIndex_None_iff)

lemma indexOf_Some_iff:
  "indexOf xs x = Some i \<longleftrightarrow> i < length xs \<and> xs ! i = x \<and> (\<forall>j<i. xs ! j \<noteq> x)"
  by (simp add: indexOf_def findIndex_Some_iff)

lemma filenameIndex_None_iff:
  "filenameIndex env c m = None \<longleftrightarrow>
     Some c \<notin> set (sources m) \<and> (\<forall>e\<in>set (sources m). \<not> normalizedMatch env c e)"
proof (cases "indexOf (sources m) (Some c)")
  case None
  then show ?thesis
    by (simp add: filenameIndex_def findIndex_None_iff indexOf_None_iff[symmetric])
next
  case (Some i)
  then have "Some c \<in> set (sources m)"
    using indexOf_None_iff[of "sources m" "Some c"] by auto
  with Some show ?thesis by (simp add: filenameIndex_def)
qed

text \<open>
  C5, as amended.  The matcher first looks for an entry equal to the candidate and takes its
  position; only when there is none does it look for the first entry that is a non-empty
  string and whose form resolved against the empty base equals the candidate.  No entry is
  lost by skipping the empty string: when the library resolves the empty string against
  the empty base to itself, the second pass is the search over every string entry.  In a
  document whose only source is written
  \<^verbatim>\<open>./node_modules/react-dom/cjs/react-dom.production.min.js\<close>, the candidate equal to
  the entry is found by the first pass; any other candidate is found, by the second pass,
  exactly when the entry resolves to it.  The matcher throws
  \<^verbatim>\<open>Cannot find '...' in input sourcemap\<close> exactly when both passes fail; when a
  position is found, the result is decided by the content at that position.
\<close>

theorem C5_exact_pass_then_normalized_pass:
  "(indexOf (sources m) (Some c) = Some i \<longrightarrow> filenameIndex env c m = Some i) \<and>
   (indexOf (sources m) (Some c) = None \<longrightarrow>
      filenameIndex env c m = findIndex (normalizedMatch env c) (sources m)) \<and>
   (normalizedMatch env c e \<longleftrightarrow> (\<exists>f. e = Some f \<and> f \<noteq> [] \<and> resolveUri env f [] = c)) \<and>
   (resolveUri env [] [] = [] \<and> indexOf (sources m) (Some c) = None \<longrightarrow>
      filenameIndex env c m =
        findIndex (\<lambda>e. case e of None \<Rightarrow> False | Some f \<Rightarrow> resolve env f [] = c) (sources m)) \<and>
   (sources m = [Some ''./node_modules/react-dom/cjs/react-dom.production.min.js''] \<longrightarrow>
      indexOf (sources m) (Some c) =
        (if c = ''./node_modules/react-dom/cjs/react-dom.production.min.js'' then Some 0 else None) \<and>
      findIndex (normalizedMatch env c) (sources m) =
        (if resolveUri env ''./node_modules/react-dom/cjs/react-dom.production.min.js'' [] = c
         then Some 0 else None) \<and>
      filenameIndex env c m =
        (if c = ''./node_modules/react-dom/cjs/react-dom.production.min.js'' \<or>
            resolveUri env ''./node_modules/react-dom/cjs/react-dom.production.min.js'' [] = c
         then Some 0 else None)) \<and>
   (filenameIndex env c m = None \<longleftrightarrow>
      Some c \<notin> set (sources m) \<and> (\<forall>e\<in>set (sources m). \<not> normalizedMatch env c e)) \<and>
   (findMatchingReactDOMVersion env c m = Inl (CannotFindInInputSourcemap c) \<longleftrightarrow>
      filenameIndex env c m = None) \<and>
   (filenameIndex env c m = Some i \<longrightarrow>
      findMatchingReactDOMVersion env c m =
        (case sourcesContentAt m i of
           None \<Rightarrow> Inl (CannotFindSourceContents c)
         | Some sourceContents \<Rightarrow>
             if sourceContents = [] then Inl (CannotFindSourceContents c)
             else (case hashesToSourcemapDescriptors env (hashSHA256 env sourceContents) of
                     None \<Rightarrow> Inl (CannotFindVersion c)
                   | Some versionEntry \<Rightarrow> Inr versionEntry)))"
proof (intro conjI impI)
  assume "indexOf (sources m) (Some c) = Some i"
  then show "filenameIndex env c m = Some i" by (simp add: filenameIndex_def)
next
  assume "indexOf (sources m) (Some c) = None"
  then show "filenameIndex env c m = findIndex (normalizedMatch env c) (sources m)"
    by (simp add: filenameIndex_def)
next
  show "normalizedMatch env c e \<longleftrightarrow> (\<exists>f. e = Some f \<and> f \<noteq> [] \<and> resolveUri env f [] = c)"
    by (simp add: normalizedMatch_iff resolve_empty_base)
next
  assume a: "resolveUri env [] [] = [] \<and> indexOf (sources m) (Some c) = None"
  then have absent: "Some c \<notin> set (sources m)" by (simp add: indexOf_None_iff)
  have "findIndex (normalizedMatch env c) (sources m) =
        findIndex (\<lambda>e. case e of None \<Rightarrow> False | Some f \<Rightarrow> resolve env f [] = c) (sources m)"
  proof (rule findIndex_cong_set)
    fix e assume e: "e \<in> set (sources m)"
    show "normalizedMatch env c e = (case e of None \<Rightarrow> False | Some f \<Rightarrow> resolve env f [] = c)"
    proof (cases e)
      case None
      then show ?thesis by (simp add: normalizedMatch_def)
    next
      case (Some f)
      show ?thesis
      proof (cases "f = []")
        case True
        with e Some absent have "c \<noteq> []" by auto
        with True Some a show ?thesis
          by (auto simp: normalizedMatch_def resolve_empty_base)
      next
        case False
        with Some show ?thesis by (simp add: normalizedMatch_def)
      qed
    qed
  qed
  with a show "filenameIndex env c m =
      findIndex (\<lambda>e. case e of None \<Rightarrow> False | Some f \<Rightarrow> resolve env f [] = c) (sources m)"
    by (simp add: filenameIndex_def)
next
  assume s: "sources m = [Some ''./node_modules/react-dom/cjs/react-dom.production.min.js'']"
  show "indexOf (sources m) (Some c) =
        (if c = ''./node_modules/react-dom/cjs/react-dom.production.min.js'' then Some 0 else None)"
    by (auto simp: s indexOf_def)
  show "findIndex (normalizedMatch env c) (sources m) =
        (if resolveUri env ''./node_modules/react-dom/cjs/react-dom.production.min.js'' [] = c
         then Some 0 else None)"
    by (simp add: s normalizedMatch_def resolve_empty_base)
  show "filenameIndex env c m =
        (if c = ''./node_modules/react-dom/cjs/react-dom.production.min.js'' \<or>
            resolveUri env ''./node_modules/react-dom/cjs/react-dom.production.min.js'' [] = c
         then Some 0 else None)"
    by (auto simp: s filenameIndex_def indexOf_def normalizedMatch_def resolve_empty_base)
next
  show "filenameIndex env c m = None \<longleftrightarrow>
      Some c \<notin> set (sources m) \<and> (\<forall>e\<in>set (sources m). \<not> normalizedMatch env c e)"
    by (rule filenameIndex_None_iff)
next
  show "findMatchingReactDOMVersion env c m = Inl (CannotFindInInputSourcemap c) \<longleftrightarrow>
      filenameIndex env c m = None"
    by (auto simp: findMatchingReactDOMVersion_def split: option.splits if_splits)
next
  assume "filenameIndex env c m = Some i"
  then show "findMatchingReactDOMVersion env c m =
        (case sourcesContentAt m i of
           None \<Rightarrow> Inl (CannotFindSourceContents c)
         | Some sourceContents \<Rightarrow>
             if sourceContents = [] then Inl (CannotFindSourceContents c)
             else (case hashesToSourcemapDescriptors env (hashSHA256 env sourceContents) of
                     None \<Rightarrow> Inl (CannotFindVersion c)
                   | Some versionEntry \<Rightarrow> Inr versionEntry))"
    by (simp add: findMatchingReactDOMVersion_def)
qed


lemmas matcher_defs = filenameIndex_def indexOf_def normalizedMatch_def resolve_def endsWith_def
  findMatchingReactDOMVersion_def sourcesContentAt_def hashSHA256_def occursAt_def

text \<open>
  C5 at concrete documents: an exact match, a match by the second pass, the entry written
  without a protocol prefix, and no match.
\<close>

theorem C5_witness:
  "indexOf (sources sample_two_spellings) (Some ''webpack://x/react-dom.production.min.js'') = Some 1 \<and>
   filenameIndex sample_env ''webpack://x/react-dom.production.min.js'' sample_two_spellings = Some 1 \<and>
   findMatchingReactDOMVersion sample_env ''webpack://x/react-dom.production.min.js''
     sample_two_spellings = Inr sample_version \<and>
   resolveUri sample_env [] [] = [] \<and>
   indexOf (sources (sample_two_spellings\<lparr>sources := [Some ''webpack://x/./react-dom.production.min.js'']\<rparr>))
     (Some ''webpack://x/react-dom.production.min.js'') = None \<and>
   filenameIndex sample_env ''webpack://x/react-dom.production.min.js''
     (sample_two_spellings\<lparr>sources := [Some ''webpack://x/./react-dom.production.min.js'']\<rparr>) = Some 0 \<and>
   findMatchingReactDOMVersion sample_env ''webpack://x/react-dom.production.min.js''
     (sample_two_spellings\<lparr>sources := [Some ''webpack://x/./react-dom.production.min.js'']\<rparr>) =
     Inl (CannotFindVersion ''webpack://x/react-dom.production.min.js'') \<and>
   filenameIndex sample_env ''./node_modules/react-dom/cjs/react-dom.production.min.js''
     sample_relative = Some 0 \<and>
   filenameIndex sample_env ''absent.js'' sample_relative = None \<and>
   findMatchingReactDOMVersion sample_env ''absent.js'' sample_relative =
     Inl (CannotFindInInputSourcemap ''absent.js'')"
  using
    C5_exact_pass_then_normalized_pass[of sample_two_spellings
      "''webpack://x/react-dom.production.min.js''" 1 sample_env None]
    C5_exact_pass_then_normalized_pass[of
      "sample_two_spellings\<lparr>sources := [Some ''webpack://x/./react-dom.production.min.js'']\<rparr>"
      "''webpack://x/react-dom.production.min.js''" 0 sample_env None]
    C5_exact_pass_then_normalized_pass[of sample_relative
      "''./node_modules/react-dom/cjs/react-dom.production.min.js''" 0 sample_env None]
    C5_exact_pass_then_normalized_pass[of sample_relative "''absent.js''" 0 sample_env None]
  by (simp add: sample_defs sample_two_spellings_def sample_relative_def matcher_defs)

text \<open>
  C5 as stated fails in its scenario.  In \<open>sample_relative\<close> the only source is written
  \<^verbatim>\<open>./node_modules/react-dom/cjs/react-dom.production.min.js\<close>.  The name resolves
  against the empty base to itself, so the walk presents the source under the name as
  written, and the first pass finds it: the second pass is not what matches it.  A
  candidate that differs from the entry, such as the name without \<^verbatim>\<open>./\<close>, is found by
  neither pass, and the matcher throws.
\<close>

theorem C5_counterexample:
  "sources sample_relative = [Some ''./node_modules/react-dom/cjs/react-dom.production.min.js''] \<and>
   resolvedSource sample_env None [] (Some ''./node_modules/react-dom/cjs/react-dom.production.min.js'') =
     ''./node_modules/react-dom/cjs/react-dom.production.min.js'' \<and>
   resolve sample_env ''./node_modules/react-dom/cjs/react-dom.production.min.js'' [] =
     ''./node_modules/react-dom/cjs/react-dom.production.min.js'' \<and>
   indexOf (sources sample_relative)
     (Some ''./node_modules/react-dom/cjs/react-dom.production.min.js'') = Some 0 \<and>
   findMatchingReactDOMVersion sample_env
     ''./node_modules/react-dom/cjs/react-dom.production.min.js'' sample_relative =
     Inr sample_version \<and>
   indexOf (sources sample_relative)
     (Some ''node_modules/react-dom/cjs/react-dom.production.min.js'') = None \<and>
   findIndex (normalizedMatch sample_env ''node_modules/react-dom/cjs/react-dom.production.min.js'')
     (sources sample_relative) = None \<and>
   findMatchingReactDOMVersion sample_env
     ''node_modules/react-dom/cjs/react-dom.production.min.js'' sample_relative =
     Inl (CannotFindInInputSourcemap ''node_modules/react-dom/cjs/react-dom.production.min.js'')"
  by (simp add: sample_defs sample_relative_def matcher_defs sample_resolvedSource_def)

lemma filenameIndex_Some_cases:
  assumes "filenameIndex env c m = Some i"
  shows "(Some c \<in> set (sources m) \<and> i < length (sources m) \<and> sources m ! i = Some c \<and>
            (\<forall>j<i. sources m ! j \<noteq> Some c)) \<or>
         (Some c \<notin> set (sources m) \<and> i < length (sources m) \<and>
            normalizedMatch env c (sources m ! i) \<and>
            (\<forall>j<i. \<not> normalizedMatch env c (sources m ! j)))"
proof (cases "indexOf (sources m) (Some c)")
  case None
  with assms show ?thesis
    by (simp add: filenameIndex_def findIndex_Some_iff indexOf_None_iff)
next
  case (Some k)
  with assms have ki: "k = i" by (simp add: filenameIndex_def)
  from Some have "Some c \<in> set (sources m)"
    using indexOf_None_iff[of "sources m" "Some c"] by auto
  with Some ki show ?thesis by (simp add: indexOf_Some_iff)
qed

lemma occursAt_filenameIndex:
  assumes "occursAt env c m k"
  shows "\<exists>i. filenameIndex env c m = Some i"
proof (cases "filenameIndex env c m")
  case None
  with assms show ?thesis
    by (auto simp: filenameIndex_None_iff occursAt_def dest: nth_mem)
next
  case (Some i)
  then show ?thesis by simp
qed

text \<open>
  C8, as amended.  When the candidate occurs in the source list, exactly or after
  normalization, the matcher selects the first position that holds the candidate exactly
  if there is one, and otherwise the first position at which it occurs; the content at
  the selected position is the one that is hashed and looked up in the registry.
\<close>

theorem C8_first_exact_else_first_normalized:
  assumes "occursAt env c m k"
  shows "\<exists>i. filenameIndex env c m = Some i \<and> occursAt env c m i \<and>
           (if Some c \<in> set (sources m)
            then sources m ! i = Some c \<and> (\<forall>j<i. sources m ! j \<noteq> Some c)
            else (\<forall>j<i. \<not> occursAt env c m j)) \<and>
           findMatchingReactDOMVersion env c m =
             (case sourcesContentAt m i of
                None \<Rightarrow> Inl (CannotFindSourceContents c)
              | Some sourceContents \<Rightarrow>
                  if sourceContents = [] then Inl (CannotFindSourceContents c)
                  else (case hashesToSourcemapDescriptors env (hashSHA256 env sourceContents) of
                          None \<Rightarrow> Inl (CannotFindVersion c)
                        | Some versionEntry \<Rightarrow> Inr versionEntry))"
proof -
  from occursAt_filenameIndex[OF assms] obtain i where i: "filenameIndex env c m = Some i" ..
  from filenameIndex_Some_cases[OF i]
  have pos: "occursAt env c m i \<and>
           (if Some c \<in> set (sources m)
            then sources m ! i = Some c \<and> (\<forall>j<i. sources m ! j \<noteq> Some c)
            else (\<forall>j<i. \<not> occursAt env c m j))"
    by (auto simp: occursAt_def dest: nth_mem)
  have "findMatchingReactDOMVersion env c m =
             (case sourcesContentAt m i of
                None \<Rightarrow> Inl (CannotFindSourceContents c)
              | Some sourceContents \<Rightarrow>
                  if sourceContents = [] then Inl (CannotFindSourceContents c)
                  else (case hashesToSourcemapDescriptors env (hashSHA256 env sourceContents) of
                          None \<Rightarrow> Inl (CannotFindVersion c)
                        | Some versionEntry \<Rightarrow> Inr versionEntry))"
    by (simp add: findMatchingReactDOMVersion_def i)
  with i pos show ?thesis by blast
qed

text \<open>C8 at a document that lists the same non-normalized spelling twice.\<close>

theorem C8_witness:
  "occursAt sample_env ''webpack://x/react-dom.production.min.js''
     (sample_two_spellings\<lparr>sources := [Some ''webpack://x/./react-dom.production.min.js'',
                                        Some ''webpack://x/./react-dom.production.min.js'']\<rparr>) 1 \<and>
   filenameIndex sample_env ''webpack://x/react-dom.production.min.js''
     (sample_two_spellings\<lparr>sources := [Some ''webpack://x/./react-dom.production.min.js'',
                                        Some ''webpack://x/./react-dom.production.min.js'']\<rparr>) = Some 0 \<and>
   findMatchingReactDOMVersion sample_env ''webpack://x/react-dom.production.min.js''
     (sample_two_spellings\<lparr>sources := [Some ''webpack://x/./react-dom.production.min.js'',
                                        Some ''webpack://x/./react-dom.production.min.js'']\<rparr>) =
     Inl (CannotFindVersion ''webpack://x/react-dom.production.min.js'')"
  using C8_first_exact_else_first_normalized[of sample_env
      "''webpack://x/react-dom.production.min.js''"
      "sample_two_spellings\<lparr>sources := [Some ''webpack://x/./react-dom.production.min.js'',
                                        Some ''webpack://x/./react-dom.production.min.js'']\<rparr>" 1]
  by (simp add: sample_defs sample_two_spellings_def matcher_defs)

text \<open>
  C8 as stated fails: in \<open>sample_two_spellings\<close> the candidate occurs at position 0 (after
  normalization) and at position 1 (exactly); the matcher selects position 1 and resolves
  the content of position 1, although the content of position 0 is not registered.
\<close>

theorem C8_counterexample:
  "occursAt sample_env ''webpack://x/react-dom.production.min.js'' sample_two_spellings 0 \<and>
   occursAt sample_env ''webpack://x/react-dom.production.min.js'' sample_two_spellings 1 \<and>
   filenameIndex sample_env ''webpack://x/react-dom.production.min.js'' sample_two_spellings = Some 1 \<and>
   sourcesContentAt sample_two_spellings 0 = Some ''another build'' \<and>
   hashesToSourcemapDescriptors sample_env (hashSHA256 sample_env ''another build'') = None \<and>
   findMatchingReactDOMVersion sample_env ''webpack://x/react-dom.production.min.js''
     sample_two_spellings = Inr sample_version"
  by (simp add: sample_defs sample_two_spellings_def matcher_defs)

text \<open>
  C9.  When the content at the matched position is the empty string, the matcher throws
  \<^verbatim>\<open>Cannot find source contents for '...'\<close>, as it does when the entry is
  \<^verbatim>\<open>null\<close> or when the document has no \<^verbatim>\<open>sourcesContent\<close>.
\<close>

theorem C9_empty_content_is_missing_content:
  assumes "filenameIndex env c m = Some i"
    and "sourcesContent m = Some cs" and "i < length cs" and "cs ! i = Some []"
  shows "findMatchingReactDOMVersion env c m = Inl (CannotFindSourceContents c) \<and>
         findMatchingReactDOMVersion env c (m\<lparr>sourcesContent := Some (cs[i := None])\<rparr>) =
           Inl (CannotFindSourceContents c) \<and>
         findMatchingReactDOMVersion env c (m\<lparr>sourcesContent := None\<rparr>) =
           Inl (CannotFindSourceContents c)"
proof -
  have same: "filenameIndex env c (m\<lparr>sourcesContent := x\<rparr>) = Some i" for x
    using assms(1) by (simp add: filenameIndex_def cong: option.case_cong)
  show ?thesis
    using assms same
    by (simp add: findMatchingReactDOMVersion_def sourcesContentAt_def)
qed

text \<open>C9 at a document whose only source has the empty string as content.\<close>

theorem C9_witness:
  "filenameIndex sample_env ''webpack://x/react-dom.production.min.js'' sample_empty_content = Some 0 \<and>
   sourcesContent sample_empty_content = Some [Some []] \<and>
   findMatchingReactDOMVersion sample_env ''webpack://x/react-dom.production.min.js''
     sample_empty_content = Inl (CannotFindSourceContents ''webpack://x/react-dom.production.min.js'') \<and>
   findMatchingReactDOMVersion sample_env ''webpack://x/react-dom.production.min.js''
     (sample_empty_content\<lparr>sourcesContent := None\<rparr>) =
       Inl (CannotFindSourceContents ''webpack://x/react-dom.production.min.js'')"
  using C9_empty_content_is_missing_content[of sample_env
      "''webpack://x/react-dom.production.min.js''" sample_empty_content 0 "[Some []]"]
  by (simp add: sample_defs sample_empty_content_def filenameIndex_def indexOf_def)

section \<open>The loader and the walk\<close>

lemma loadExistingSourcemap_console:
  "loadExistingSourcemap env ver False out = Inr (sm, out') \<Longrightarrow>
     out' = out \<and> loadExistingSourcemap env ver False out2 = Inr (sm, out2)"
  by (auto simp: loadExistingSourcemap_def Let_def split: sum.splits)

lemma loadExistingSourcemap_error_console:
  "loadExistingSourcemap env ver False out = Inl e \<Longrightarrow>
     loadExistingSourcemap env ver False out2 = Inl e"
  by (auto simp: loadExistingSourcemap_def Let_def split: sum.splits)

lemma loadExistingSourcemap_guard:
  "loadExistingSourcemap env ver verbose out = Inr (sm, out') \<Longrightarrow> truthy sm \<and> isSourceMapV3 sm"
  by (cases sm)
     (auto simp: loadExistingSourcemap_def loadSourcemap_def isSourceMapV3_def Let_def
           split: sum.splits option.splits if_splits)

lemma loader_no_match:
  "SUPPORTED_PACKAGES_exec f = None \<Longrightarrow>
     loader env verbose m st f =
       Inr (None, if verbose then st\<lparr>console := console st @ [LogSkippingSourcemap f]\<rparr> else st)"
  by (simp add: loader_def)

lemma loader_unresolved:
  "SUPPORTED_PACKAGES_exec f \<noteq> None \<Longrightarrow> findMatchingReactDOMVersion env f m = Inl e \<Longrightarrow>
     loader env verbose m st f = Inl e"
  by (auto simp: loader_def Let_def)

lemma loader_load_fails:
  assumes "SUPPORTED_PACKAGES_exec f \<noteq> None"
    and "findMatchingReactDOMVersion env f m = Inr ver"
    and "loadExistingSourcemap env ver False [] = Inl e"
  shows "loader env verbose m st f = Inl e"
proof -
  have l: "loadExistingSourcemap env ver False out = Inl e" for out
    using loadExistingSourcemap_error_console[OF assms(3)] .
  from assms(1,2) show ?thesis
    by (auto simp: loader_def Let_def l)
qed

lemma loader_replaces:
  assumes "SUPPORTED_PACKAGES_exec f = Some p"
    and "findMatchingReactDOMVersion env f m = Inr ver"
    and "loadExistingSourcemap env ver False [] = Inr (sm, [])"
  shows "\<exists>st'. loader env verbose m st f = Inr (Some sm, st') \<and>
           reactVersions st' = reactVersions st @ [ver]"
proof -
  have l: "loadExistingSourcemap env ver False out = Inr (sm, out)" for out
    using loadExistingSourcemap_console[OF assms(3)] by simp
  have g: "truthy sm \<and> isSourceMapV3 sm"
    using loadExistingSourcemap_guard[OF assms(3)] .
  show ?thesis
    using assms(1,2) g by (simp add: loader_def Let_def l)
qed

lemma loader_Inr_None:
  "loader env verbose m st f = Inr (None, st') \<Longrightarrow>
     SUPPORTED_PACKAGES_exec f = None \<and> reactVersions st' = reactVersions st"
  by (auto simp: loader_def Let_def split: option.splits sum.splits if_splits prod.splits)

lemma loader_Inr_Some:
  "loader env verbose m st f = Inr (Some sm, st') \<Longrightarrow>
     SUPPORTED_PACKAGES_exec f \<noteq> None \<and>
     (\<exists>ver. findMatchingReactDOMVersion env f m = Inr ver \<and>
        reactVersions st' = reactVersions st @ [ver])"
  by (auto simp: loader_def Let_def split: option.splits sum.splits if_splits prod.splits)

lemma buildChildren_append:
  "buildChildren d l (xs @ ys) st =
     (case buildChildren d l xs st of
        None \<Rightarrow> None
      | Some (Inl e) \<Rightarrow> Some (Inl e)
      | Some (Inr (ts, st1)) \<Rightarrow>
          (case buildChildren d l ys st1 of
             None \<Rightarrow> None
           | Some (Inl e) \<Rightarrow> Some (Inl e)
           | Some (Inr (ts', st2)) \<Rightarrow> Some (Inr (ts @ ts', st2))))"
proof (induction xs arbitrary: st)
  case Nil
  show ?case by (simp split: option.splits sum.splits prod.splits)
next
  case (Cons x xs)
  obtain source content where x: "x = (source, content)" by (cases x)
  show ?case
    unfolding x
    by (simp add: Cons.IH split: option.splits sum.splits prod.splits)
qed

lemma buildChildren_prefix:
  assumes d: "\<And>sm u s t s'. d sm u s = Some (Inr (t, s')) \<Longrightarrow>
                 prefix (reactVersions s) (reactVersions s')"
  shows "buildChildren d (loader env verbose m) xs st = Some (Inr (ts, st')) \<Longrightarrow>
           prefix (reactVersions st) (reactVersions st')"
proof (induction xs arbitrary: st ts)
  case Nil
  then show ?case by simp
next
  case (Cons x xs)
  obtain source content where x: "x = (source, content)" by (cases x)
  show ?case
  proof (cases "loader env verbose m st source")
    case (Inl e)
    with Cons.prems show ?thesis by (simp add: x)
  next
    case (Inr r)
    obtain res st1 where r: "r = (res, st1)" by (cases r)
    show ?thesis
    proof (cases res)
      case None
      from loader_Inr_None[of env verbose m st source st1] Inr r None
      have same: "reactVersions st1 = reactVersions st" by simp
      from Cons.prems Inr r None obtain ts1 where
        "buildChildren d (loader env verbose m) xs st1 = Some (Inr (ts1, st'))"
        by (auto simp: x split: option.splits sum.splits prod.splits)
      from Cons.IH[OF this] same show ?thesis by simp
    next
      case (Some sm)
      from loader_Inr_Some[of env verbose m st source sm st1] Inr r Some
      have p1: "prefix (reactVersions st) (reactVersions st1)" by auto
      from Cons.prems Inr r Some obtain t st2 ts1 where
        d1: "d sm source st1 = Some (Inr (t, st2))" and
        b: "buildChildren d (loader env verbose m) xs st2 = Some (Inr (ts1, st'))"
        by (auto simp: x split: option.splits sum.splits prod.splits)
      from p1 d[OF d1] Cons.IH[OF b] show ?thesis
        by (meson prefix_order.trans)
    qed
  qed
qed

lemma build_prefix:
  "build env (loader env verbose m) n sm u st = Some (Inr (t, st')) \<Longrightarrow>
     prefix (reactVersions st) (reactVersions st')"
proof (induction n arbitrary: sm u st t st')
  case 0
  then show ?case by simp
next
  case (Suc n)
  from Suc.prems obtain m1 ts where
    "buildChildren (build env (loader env verbose m) n) (loader env verbose m)
       (children_of env m1 u) st = Some (Inr (ts, st'))"
    by (auto split: option.splits sum.splits prod.splits)
  then show ?case
    by (rule buildChildren_prefix[rotated]) (rule Suc.IH)
qed

lemma buildChildren_no_match:
  "\<forall>x\<in>set xs. SUPPORTED_PACKAGES_exec (fst x) = None \<Longrightarrow>
     \<exists>st'. buildChildren d (loader env verbose m) xs st = Some (Inr (map leaf xs, st')) \<and>
            reactVersions st' = reactVersions st"
proof (induction xs arbitrary: st)
  case Nil
  then show ?case by simp
next
  case (Cons x xs)
  obtain source content where x: "x = (source, content)" by (cases x)
  let ?st1 = "if verbose then st\<lparr>console := console st @ [LogSkippingSourcemap source]\<rparr> else st"
  from Cons.prems have "\<forall>x\<in>set xs. SUPPORTED_PACKAGES_exec (fst x) = None" by simp
  from Cons.IH[OF this, of ?st1] obtain st' where
    "buildChildren d (loader env verbose m) xs ?st1 = Some (Inr (map leaf xs, st'))"
    "reactVersions st' = reactVersions ?st1" by blast
  moreover from Cons.prems have "SUPPORTED_PACKAGES_exec source = None" by (simp add: x)
  ultimately show ?case
    by (simp add: x loader_no_match)
qed

lemma entry_unfold:
  assumes "as_SourceMapV3 inputSourcemap = Some m"
  shows "maybeRewriteSourcemapWithReactProd env n inputSourcemap verbose =
     (case build env (loader env verbose m) n inputSourcemap [] initial_state of
        None \<Rightarrow> None
      | Some (Inl e) \<Rightarrow> Some (Inl e)
      | Some (Inr (t, st)) \<Rightarrow>
          Some (Inr (\<lparr>outputSourcemap = traceMappings env t,
                       rewroteSourcemap = (reactVersions st \<noteq> []),
                       reactVersion = (case reactVersions st of [] \<Rightarrow> None | v # vs \<Rightarrow> Some v)\<rparr>,
                     if length (reactVersions st) > 1 \<and> verbose
                     then console st @ [LogFoundMultipleVersions (map version (reactVersions st))]
                     else console st)))"
  using assms as_SourceMapV3_isSourceMapV3[OF assms]
  by (simp add: maybeRewriteSourcemapWithReactProd_def remapping_def initial_state_def Let_def
           split: option.splits sum.splits prod.splits)

lemma build_Suc:
  assumes "as_SourceMapV3 sm = Some m1"
  shows "build env l (Suc n) sm u st =
     (case buildChildren (build env l n) l (children_of env m1 u) st of
        None \<Rightarrow> None
      | Some (Inl e) \<Rightarrow> Some (Inl e)
      | Some (Inr (ts, st1)) \<Rightarrow> Some (Inr (MapSource sm ts, st1)))"
  using assms by simp

lemma buildChildren_stops_at_error:
  assumes skipped: "\<forall>x\<in>set before. SUPPORTED_PACKAGES_exec (fst x) = None"
    and err: "\<And>st. loader env verbose m st f = Inl e"
  shows "buildChildren d (loader env verbose m) (before @ (f, content) # after) st = Some (Inl e)"
proof -
  from buildChildren_no_match[OF skipped, of d env verbose m st] obtain st1 where
    "buildChildren d (loader env verbose m) before st = Some (Inr (map leaf before, st1))"
    by blast
  then show ?thesis
    by (simp add: buildChildren_append err)
qed

lemma entry_throws_at_first_match:
  assumes valid: "as_SourceMapV3 inputSourcemap = Some m"
    and order: "children_of env m [] = before @ (f, content) # after"
    and skipped: "\<forall>x\<in>set before. SUPPORTED_PACKAGES_exec (fst x) = None"
    and throws: "\<And>st. loader env verbose m st f = Inl e"
  shows "maybeRewriteSourcemapWithReactProd env (Suc n) inputSourcemap verbose = Some (Inl e)"
proof -
  from buildChildren_stops_at_error[OF skipped throws]
  have "build env (loader env verbose m) (Suc n) inputSourcemap [] initial_state = Some (Inl e)"
    by (simp add: valid order)
  then show ?thesis
    by (simp add: entry_unfold[OF valid])
qed

lemma findMatchingReactDOMVersion_errors:
  "findMatchingReactDOMVersion env f m = Inl e \<Longrightarrow>
     e = CannotFindInInputSourcemap f \<or> e = CannotFindSourceContents f \<or> e = CannotFindVersion f"
  by (auto simp: findMatchingReactDOMVersion_def split: option.splits if_splits)

section \<open>A resolution that fails: claims C1 and C7\<close>

text \<open>
  C1 does not hold of the code.  Let the walk of the sources that precede \<open>f\<close> in a valid
  document complete, whatever it replaced, and let \<open>f\<close> match the pattern and
  \<^verbatim>\<open>findMatchingReactDOMVersion\<close> throw for it: the name is not in the source list, the
  content is missing, or its hash is not registered.  Then nothing catches the error: the
  call of the entry point throws it, and no \<^verbatim>\<open>RewriteSourcemapResult\<close> is returned.
\<close>

theorem C1_unresolved_reference_aborts_the_call:
  assumes valid: "as_SourceMapV3 inputSourcemap = Some m"
    and order: "children_of env m [] = before @ (f, content) # after"
    and reached: "buildChildren (build env (loader env verbose m) n) (loader env verbose m)
                    before initial_state = Some (Inr (ts, st1))"
    and matches: "SUPPORTED_PACKAGES_exec f \<noteq> None"
    and unresolved: "findMatchingReactDOMVersion env f m = Inl e"
  shows "maybeRewriteSourcemapWithReactProd env (Suc n) inputSourcemap verbose = Some (Inl e) \<and>
         (e = CannotFindInInputSourcemap f \<or> e = CannotFindSourceContents f \<or>
          e = CannotFindVersion f)"
proof -
  have l: "loader env verbose m st f = Inl e" for st
    using matches unresolved by (rule loader_unresolved)
  have "buildChildren (build env (loader env verbose m) n) (loader env verbose m)
          (before @ (f, content) # after) initial_state = Some (Inl e)"
    by (simp add: buildChildren_append reached l)
  then have "build env (loader env verbose m) (Suc n) inputSourcemap [] initial_state =
               Some (Inl e)"
    by (simp add: valid order)
  with findMatchingReactDOMVersion_errors[OF unresolved] show ?thesis
    by (simp add: entry_unfold[OF valid])
qed

lemma sample_url_matches:
  "SUPPORTED_PACKAGES_exec sample_url = Some ''react-dom.production.min.js''"
  by (simp add: sample_url_def)

lemma sample_missing_content_typed:
  "as_SourceMapV3 sample_missing_content =
     Some \<lparr>file' = None, names = [], sourceRoot = None, sources = [Some sample_url],
           sourcesContent = Some [None]\<rparr>"
  by (simp add: sample_missing_content_def sample_doc_def as_SourceMapV3_def isSourceMapV3_def)

lemma sample_unknown_version_typed:
  "as_SourceMapV3 sample_unknown_version =
     Some \<lparr>file' = None, names = [], sourceRoot = None, sources = [Some sample_url],
           sourcesContent = Some [Some ''an unregistered build'']\<rparr>"
  by (simp add: sample_unknown_version_def sample_doc_def as_SourceMapV3_def isSourceMapV3_def)

lemma sample_with_root_typed:
  "as_SourceMapV3 sample_with_root =
     Some \<lparr>file' = None, names = [], sourceRoot = Some ''webpack://x/'',
           sources = [Some ''react-dom.production.min.js''],
           sourcesContent = Some [Some ''react-dom 18.2.0 min'']\<rparr>"
  by (simp add: sample_with_root_def as_SourceMapV3_def isSourceMapV3_def)

lemma sample_children:
  "children_of (sample_env\<lparr>existsSync := ex, JSON_parse := parse\<rparr>)
     \<lparr>file' = None, names = [], sourceRoot = None, sources = [Some sample_url],
      sourcesContent = Some [c]\<rparr> [] = [(sample_url, c)]"
  by (simp add: children_of_def sample_defs sample_url_def endsWith_def sourcesContentAt_def)

lemma sample_with_root_children:
  "children_of sample_env
     \<lparr>file' = None, names = [], sourceRoot = Some ''webpack://x/'',
      sources = [Some ''react-dom.production.min.js''],
      sourcesContent = Some [Some ''react-dom 18.2.0 min'']\<rparr> [] =
   [(''webpack://x/react-dom.production.min.js'', Some ''react-dom 18.2.0 min'')]"
  by (simp add: children_of_def sample_defs endsWith_def sourcesContentAt_def suffix_to_prefix)

text \<open>
  C1 at three documents: the content is \<^verbatim>\<open>null\<close>, the content is not registered, and
  (with a \<^verbatim>\<open>sourceRoot\<close>) the resolved name is not in the source list.
\<close>

theorem C1_witness:
  "maybeRewriteSourcemapWithReactProd sample_env 1 sample_missing_content False =
     Some (Inl (CannotFindSourceContents sample_url)) \<and>
   maybeRewriteSourcemapWithReactProd sample_env 1 sample_unknown_version False =
     Some (Inl (CannotFindVersion sample_url)) \<and>
   maybeRewriteSourcemapWithReactProd sample_env 1 sample_with_root False =
     Some (Inl (CannotFindInInputSourcemap ''webpack://x/react-dom.production.min.js''))"
proof -
  have u1: "findMatchingReactDOMVersion sample_env sample_url
     \<lparr>file' = None, names = [], sourceRoot = None, sources = [Some sample_url],
      sourcesContent = Some [None]\<rparr> = Inl (CannotFindSourceContents sample_url)"
    by (simp add: matcher_defs)
  have u2: "findMatchingReactDOMVersion sample_env sample_url
     \<lparr>file' = None, names = [], sourceRoot = None, sources = [Some sample_url],
      sourcesContent = Some [Some ''an unregistered build'']\<rparr> = Inl (CannotFindVersion sample_url)"
    by (simp add: matcher_defs sample_env_def)
  have u3: "findMatchingReactDOMVersion sample_env ''webpack://x/react-dom.production.min.js''
     \<lparr>file' = None, names = [], sourceRoot = Some ''webpack://x/'',
      sources = [Some ''react-dom.production.min.js''],
      sourcesContent = Some [Some ''react-dom 18.2.0 min'']\<rparr> =
     Inl (CannotFindInInputSourcemap ''webpack://x/react-dom.production.min.js'')"
    by (simp add: matcher_defs sample_defs)
  have c: "children_of sample_env
     \<lparr>file' = None, names = [], sourceRoot = None, sources = [Some sample_url],
      sourcesContent = Some [x]\<rparr> [] = [] @ (sample_url, x) # []" for x
    using sample_children[where ex = "existsSync sample_env" and parse = "JSON_parse sample_env"
        and c = x] by simp
  have c3: "children_of sample_env
     \<lparr>file' = None, names = [], sourceRoot = Some ''webpack://x/'',
      sources = [Some ''react-dom.production.min.js''],
      sourcesContent = Some [Some ''react-dom 18.2.0 min'']\<rparr> [] =
     [] @ (''webpack://x/react-dom.production.min.js'', Some ''react-dom 18.2.0 min'') # []"
    by (simp add: sample_with_root_children)
  have r: "buildChildren d l [] initial_state = Some (Inr ([], initial_state))"
    for d and l :: "walk_state loader"
    by simp
  from C1_unresolved_reference_aborts_the_call[OF sample_missing_content_typed c r _ u1,
      where n = 0 and verbose = False]
    C1_unresolved_reference_aborts_the_call[OF sample_unknown_version_typed c r _ u2,
      where n = 0 and verbose = False]
    C1_unresolved_reference_aborts_the_call[OF sample_with_root_typed c3 r _ u3,
      where n = 0 and verbose = False]
  show ?thesis by (simp add: sample_url_matches)
qed

text \<open>
  C7.  Let the walk of the sources that precede \<open>f\<close> in a valid document complete,
  whatever it replaced, and let \<open>f\<close> match the pattern and the matcher find a registered
  version for it.  When loading the sourcemap stored for that version fails (the file is
  missing, cannot be read, is not JSON, or does not pass \<^verbatim>\<open>isSourceMapV3\<close>), the
  callback throws that error in whatever state it is called, and the call of the entry
  point throws it.
\<close>

theorem C7_registry_load_error_aborts_the_call:
  assumes valid: "as_SourceMapV3 inputSourcemap = Some m"
    and order: "children_of env m [] = before @ (f, content) # after"
    and reached: "buildChildren (build env (loader env verbose m) n) (loader env verbose m)
                    before initial_state = Some (Inr (ts, st1))"
    and matches: "SUPPORTED_PACKAGES_exec f \<noteq> None"
    and registered: "findMatchingReactDOMVersion env f m = Inr versionEntry"
    and load_fails: "loadExistingSourcemap env versionEntry False [] = Inl e"
  shows "(\<forall>st. loader env verbose m st f = Inl e) \<and>
         maybeRewriteSourcemapWithReactProd env (Suc n) inputSourcemap verbose = Some (Inl e)"
proof -
  have l: "loader env verbose m st f = Inl e" for st
    using matches registered load_fails by (rule loader_load_fails)
  have "buildChildren (build env (loader env verbose m) n) (loader env verbose m)
          (before @ (f, content) # after) initial_state = Some (Inl e)"
    by (simp add: buildChildren_append reached l)
  then have "build env (loader env verbose m) (Suc n) inputSourcemap [] initial_state =
               Some (Inl e)"
    by (simp add: valid order)
  with l show ?thesis
    by (simp add: entry_unfold[OF valid])
qed

lemma sample_registered_typed:
  "as_SourceMapV3 sample_registered =
     Some \<lparr>file' = None, names = [], sourceRoot = None,
           sources = [Some sample_url, Some ''webpack://x/src/index.js''],
           sourcesContent = Some [Some ''react-dom 18.2.0 min'', Some ''console.log(1)'']\<rparr>"
  by (simp add: sample_registered_def sample_doc_def as_SourceMapV3_def isSourceMapV3_def)

lemma sample_registered_children:
  "children_of (sample_env\<lparr>existsSync := ex, JSON_parse := parse\<rparr>)
     \<lparr>file' = None, names = [], sourceRoot = None,
      sources = [Some sample_url, Some ''webpack://x/src/index.js''],
      sourcesContent = Some [Some ''react-dom 18.2.0 min'', Some ''console.log(1)'']\<rparr> [] =
   [(sample_url, Some ''react-dom 18.2.0 min''), (''webpack://x/src/index.js'', Some ''console.log(1)'')]"
  by (simp add: children_of_def sample_defs sample_url_def endsWith_def sourcesContentAt_def upt_rec)

lemma sample_registered_found:
  "findMatchingReactDOMVersion (sample_env\<lparr>existsSync := ex, JSON_parse := parse\<rparr>) sample_url
     \<lparr>file' = None, names = [], sourceRoot = None,
      sources = [Some sample_url, Some ''webpack://x/src/index.js''],
      sourcesContent = Some [Some ''react-dom 18.2.0 min'', Some ''console.log(1)'']\<rparr> =
   Inr sample_version"
  by (simp add: matcher_defs sample_env_def)

text \<open>
  C7 in three environments: the stored file is missing, it holds a sourcemap of version 2,
  and it is not JSON.
\<close>

theorem C7_witness:
  "maybeRewriteSourcemapWithReactProd (sample_env\<lparr>existsSync := (\<lambda>p. False)\<rparr>) 1
     sample_registered False =
     Some (Inl (CannotFindFile
       ''/pkg/dist/../assets/react-dom/18.2.0/react-dom.production.min.js.map'')) \<and>
   maybeRewriteSourcemapWithReactProd (sample_env\<lparr>JSON_parse := (\<lambda>t. Some sample_v2_map)\<rparr>) 1
     sample_registered False =
     Some (Inl (InvalidSourcemapFile
       ''/pkg/dist/../assets/react-dom/18.2.0/react-dom.production.min.js.map'')) \<and>
   maybeRewriteSourcemapWithReactProd (sample_env\<lparr>JSON_parse := (\<lambda>t. None)\<rparr>) 1
     sample_registered False =
     Some (Inl (JSONSyntaxError
       ''/pkg/dist/../assets/react-dom/18.2.0/react-dom.production.min.js.map''))"
proof -
  let ?m = "\<lparr>file' = None, names = [], sourceRoot = None,
      sources = [Some sample_url, Some ''webpack://x/src/index.js''],
      sourcesContent = Some [Some ''react-dom 18.2.0 min'', Some ''console.log(1)'']\<rparr>"
  let ?p = "''/pkg/dist/../assets/react-dom/18.2.0/react-dom.production.min.js.map''"
  let ?e1 = "sample_env\<lparr>existsSync := (\<lambda>p. False)\<rparr>"
  let ?e2 = "sample_env\<lparr>JSON_parse := (\<lambda>t. Some sample_v2_map)\<rparr>"
  let ?e3 = "sample_env\<lparr>JSON_parse := (\<lambda>t. None)\<rparr>"
  have c: "children_of (sample_env\<lparr>existsSync := ex, JSON_parse := parse\<rparr>) ?m [] =
      [] @ (sample_url, Some ''react-dom 18.2.0 min'') #
        [(''webpack://x/src/index.js'', Some ''console.log(1)'')]" for ex parse
    by (simp add: sample_registered_children)
  have f: "findMatchingReactDOMVersion (sample_env\<lparr>existsSync := ex, JSON_parse := parse\<rparr>)
      sample_url ?m = Inr sample_version" for ex parse
    by (rule sample_registered_found)
  have l1: "loadExistingSourcemap ?e1 sample_version False [] = Inl (CannotFindFile ?p)"
    by (simp add: loadExistingSourcemap_def loadSourcemap_def sample_env_def sample_version_def)
  have l2: "loadExistingSourcemap ?e2 sample_version False [] = Inl (InvalidSourcemapFile ?p)"
    by (simp add: loadExistingSourcemap_def loadSourcemap_def sample_env_def sample_version_def
          sample_v2_map_def isSourceMapV3_def)
  have l3: "loadExistingSourcemap ?e3 sample_version False [] = Inl (JSONSyntaxError ?p)"
    by (simp add: loadExistingSourcemap_def loadSourcemap_def sample_env_def sample_version_def)
  from C7_registry_load_error_aborts_the_call[where inputSourcemap = sample_registered
        and m = ?m and env = ?e1 and before = "[]" and f = sample_url
        and content = "Some ''react-dom 18.2.0 min''"
        and after = "[(''webpack://x/src/index.js'', Some ''console.log(1)'')]"
        and ts = "[]" and ?st1.0 = initial_state
        and versionEntry = sample_version and e = "CannotFindFile ?p" and n = 0 and verbose = False]
    C7_registry_load_error_aborts_the_call[where inputSourcemap = sample_registered
        and m = ?m and env = ?e2 and before = "[]" and f = sample_url
        and content = "Some ''react-dom 18.2.0 min''"
        and after = "[(''webpack://x/src/index.js'', Some ''console.log(1)'')]"
        and ts = "[]" and ?st1.0 = initial_state
        and versionEntry = sample_version and e = "InvalidSourcemapFile ?p" and n = 0 and verbose = False]
    C7_registry_load_error_aborts_the_call[where inputSourcemap = sample_registered
        and m = ?m and env = ?e3 and before = "[]" and f = sample_url
        and content = "Some ''react-dom 18.2.0 min''"
        and after = "[(''webpack://x/src/index.js'', Some ''console.log(1)'')]"
        and ts = "[]" and ?st1.0 = initial_state
        and versionEntry = sample_version and e = "JSONSyntaxError ?p" and n = 0 and verbose = False]
    c[where ex = "\<lambda>p. False" and parse = "JSON_parse sample_env"]
    c[where ex = "existsSync sample_env" and parse = "\<lambda>t. Some sample_v2_map"]
    c[where ex = "existsSync sample_env" and parse = "\<lambda>t. None"]
    f[where ex = "\<lambda>p. False" and parse = "JSON_parse sample_env"]
    f[where ex = "existsSync sample_env" and parse = "\<lambda>t. Some sample_v2_map"]
    f[where ex = "existsSync sample_env" and parse = "\<lambda>t. None"]
    l1 l2 l3
  show ?thesis
    by (simp add: sample_url_matches sample_registered_typed)
qed

section \<open>What the entry point reports: claims C3, C4 and C6\<close>

lemma buildChildren_first_match:
  assumes d: "\<And>sm u s t s'. d sm u s = Some (Inr (t, s')) \<Longrightarrow>
                 prefix (reactVersions s) (reactVersions s')"
    and skipped: "\<forall>x\<in>set before. SUPPORTED_PACKAGES_exec (fst x) = None"
    and matches: "SUPPORTED_PACKAGES_exec f \<noteq> None"
    and registered: "findMatchingReactDOMVersion env f m = Inr versionEntry"
    and run: "buildChildren d (loader env verbose m) (before @ (f, content) # after) st =
                Some (Inr (ts, st'))"
  shows "prefix (reactVersions st @ [versionEntry]) (reactVersions st')"
proof -
  from buildChildren_no_match[OF skipped, of d env verbose m st] obtain st1 where
    b1: "buildChildren d (loader env verbose m) before st = Some (Inr (map leaf before, st1))"
    and v1: "reactVersions st1 = reactVersions st"
    by blast
  from run b1 obtain ts2 where
    b2: "buildChildren d (loader env verbose m) ((f, content) # after) st1 = Some (Inr (ts2, st'))"
    by (auto simp: buildChildren_append split: option.splits sum.splits prod.splits)
  show ?thesis
  proof (cases "loader env verbose m st1 f")
    case (Inl e)
    with b2 show ?thesis by simp
  next
    case (Inr r)
    obtain res st2 where r: "r = (res, st2)" by (cases r)
    show ?thesis
    proof (cases res)
      case None
      with Inr r loader_Inr_None[of env verbose m st1 f st2] matches show ?thesis by simp
    next
      case (Some sm)
      from loader_Inr_Some[of env verbose m st1 f sm st2] Inr r Some registered
      have v2: "reactVersions st2 = reactVersions st1 @ [versionEntry]" by auto
      from b2 Inr r Some obtain t st3 ts3 where
        d1: "d sm f st2 = Some (Inr (t, st3))" and
        b3: "buildChildren d (loader env verbose m) after st3 = Some (Inr (ts3, st'))"
        by (auto split: option.splits sum.splits prod.splits)
      from d[OF d1] buildChildren_prefix[OF d b3] have "prefix (reactVersions st2) (reactVersions st')"
        by (meson prefix_order.trans)
      with v1 v2 show ?thesis by simp
    qed
  qed
qed

lemma entry_returns:
  assumes "maybeRewriteSourcemapWithReactProd env n inputSourcemap verbose = Some (Inr (r, out))"
  shows "\<exists>m t st. as_SourceMapV3 inputSourcemap = Some m \<and>
           build env (loader env verbose m) n inputSourcemap [] initial_state = Some (Inr (t, st)) \<and>
           outputSourcemap r = traceMappings env t \<and>
           rewroteSourcemap r = (reactVersions st \<noteq> []) \<and>
           reactVersion r = (case reactVersions st of [] \<Rightarrow> None | v # vs \<Rightarrow> Some v)"
  using assms
  by (auto simp: maybeRewriteSourcemapWithReactProd_def remapping_def initial_state_def Let_def
           split: option.splits sum.splits prod.splits if_splits)

text \<open>
  What the entry point reports when a reference is resolved.  Let a valid document be given in which the walk reaches a source \<open>f\<close>
  that matches the pattern (the sources before it do not match), let the matcher locate
  the name \<open>f\<close> in the source list, at position \<open>i\<close>, and let the content at that
  position be registered with the entry \<open>versionEntry\<close>.  Whenever the entry point returns, the flag is true
  exactly when the accumulated list \<^verbatim>\<open>reactVersions\<close> is not empty, the reported
  descriptor is the head of that list, and it is \<open>versionEntry\<close>, the first one
  accumulated in the order of the walk.  When \<open>f\<close> is the only source that matches, the
  sourcemap stored for \<open>versionEntry\<close> loads and is of type \<^verbatim>\<open>SourceMapV3\<close>, and none
  of its sources matches the pattern, the entry point does return as soon as the walk may
  open two levels: the flag is true, the descriptor is \<open>versionEntry\<close>, and the output is
  composed from the tree in which \<open>f\<close> is replaced by the stored sourcemap.
\<close>

lemma first_resolved_reference_is_reported:
  assumes valid: "as_SourceMapV3 inputSourcemap = Some m"
    and order: "children_of env m [] = before @ (f, content) # after"
    and skipped: "\<forall>x\<in>set before. SUPPORTED_PACKAGES_exec (fst x) = None"
    and matches: "SUPPORTED_PACKAGES_exec f \<noteq> None"
    and located: "filenameIndex env f m = Some i"
    and embedded: "sourcesContentAt m i = Some sourceContents" "sourceContents \<noteq> []"
    and registered:
      "hashesToSourcemapDescriptors env (hashSHA256 env sourceContents) = Some versionEntry"
  shows
    "(\<forall>n verbose r out.
        maybeRewriteSourcemapWithReactProd env n inputSourcemap verbose = Some (Inr (r, out)) \<longrightarrow>
        (\<exists>t st. build env (loader env verbose m) n inputSourcemap [] initial_state =
                  Some (Inr (t, st)) \<and>
           rewroteSourcemap r = (reactVersions st \<noteq> []) \<and>
           reactVersion r = (case reactVersions st of [] \<Rightarrow> None | v # vs \<Rightarrow> Some v)) \<and>
        rewroteSourcemap r \<and> reactVersion r = Some versionEntry) \<and>
     ((\<forall>x\<in>set after. SUPPORTED_PACKAGES_exec (fst x) = None) \<and>
      loadExistingSourcemap env versionEntry False [] = Inr (stored, []) \<and>
      as_SourceMapV3 stored = Some m' \<and>
      (\<forall>x\<in>set (children_of env m' f). SUPPORTED_PACKAGES_exec (fst x) = None) \<longrightarrow>
      (\<forall>n verbose. \<exists>r out.
         maybeRewriteSourcemapWithReactProd env (Suc (Suc n)) inputSourcemap verbose =
           Some (Inr (r, out)) \<and>
         rewroteSourcemap r \<and> reactVersion r = Some versionEntry \<and>
         outputSourcemap r =
           traceMappings env
             (MapSource inputSourcemap
                (map leaf before @ MapSource stored (map leaf (children_of env m' f)) #
                 map leaf after))))"
proof -
  have found: "findMatchingReactDOMVersion env f m = Inr versionEntry"
    using located embedded registered by (simp add: findMatchingReactDOMVersion_def)
  show ?thesis
  proof (intro conjI allI impI)
  fix n verbose r out
  assume ret: "maybeRewriteSourcemapWithReactProd env n inputSourcemap verbose = Some (Inr (r, out))"
  from entry_returns[OF ret] valid obtain t st where
    b: "build env (loader env verbose m) n inputSourcemap [] initial_state = Some (Inr (t, st))"
    and flag: "rewroteSourcemap r = (reactVersions st \<noteq> [])"
    and ver: "reactVersion r = (case reactVersions st of [] \<Rightarrow> None | v # vs \<Rightarrow> Some v)"
    by auto
  then show "\<exists>t st. build env (loader env verbose m) n inputSourcemap [] initial_state =
                  Some (Inr (t, st)) \<and>
           rewroteSourcemap r = (reactVersions st \<noteq> []) \<and>
           reactVersion r = (case reactVersions st of [] \<Rightarrow> None | v # vs \<Rightarrow> Some v)"
    by blast
  from b obtain k where n: "n = Suc k" by (cases n) auto
  from b obtain ts where
    "buildChildren (build env (loader env verbose m) k) (loader env verbose m)
       (before @ (f, content) # after) initial_state = Some (Inr (ts, st))"
    by (auto simp: n valid order split: option.splits sum.splits prod.splits)
  from buildChildren_first_match[OF build_prefix skipped matches found this]
  have "prefix [versionEntry] (reactVersions st)"
    by (simp add: initial_state_def)
  then obtain rest where "reactVersions st = versionEntry # rest"
    by (auto simp: prefix_def)
  with flag ver show "rewroteSourcemap r" and "reactVersion r = Some versionEntry"
    by simp_all
next
  fix n verbose
  assume a: "(\<forall>x\<in>set after. SUPPORTED_PACKAGES_exec (fst x) = None) \<and>
      loadExistingSourcemap env versionEntry False [] = Inr (stored, []) \<and>
      as_SourceMapV3 stored = Some m' \<and>
      (\<forall>x\<in>set (children_of env m' f). SUPPORTED_PACKAGES_exec (fst x) = None)"
  let ?l = "loader env verbose m"
  let ?d = "build env ?l (Suc n)"
  from matches obtain p where p: "SUPPORTED_PACKAGES_exec f = Some p" by auto
  from buildChildren_no_match[OF skipped, of ?d env verbose m initial_state] obtain st1 where
    b1: "buildChildren ?d ?l before initial_state = Some (Inr (map leaf before, st1))"
    and v1: "reactVersions st1 = []"
    by (auto simp: initial_state_def)
  from loader_replaces[OF p found, of stored verbose st1] a obtain st2 where
    l2: "?l st1 f = Inr (Some stored, st2)" and v2: "reactVersions st2 = [versionEntry]"
    by (auto simp: v1)
  from a buildChildren_no_match[of "children_of env m' f" "build env ?l n" env verbose m st2]
  obtain st3 where
    b3: "buildChildren (build env ?l n) ?l (children_of env m' f) st2 =
           Some (Inr (map leaf (children_of env m' f), st3))"
    and v3: "reactVersions st3 = [versionEntry]"
    by (auto simp: v2)
  from a have d3: "?d stored f st2 = Some (Inr (MapSource stored (map leaf (children_of env m' f)), st3))"
    by (simp add: b3)
  from a buildChildren_no_match[of after ?d env verbose m st3]
  obtain st4 where
    b4: "buildChildren ?d ?l after st3 = Some (Inr (map leaf after, st4))"
    and v4: "reactVersions st4 = [versionEntry]"
    by (auto simp: v3)
  have "buildChildren ?d ?l (before @ (f, content) # after) initial_state =
          Some (Inr (map leaf before @ MapSource stored (map leaf (children_of env m' f)) #
                 map leaf after, st4))"
    by (simp add: buildChildren_append b1 l2 d3 b4 del: build.simps)
  then have "build env ?l (Suc (Suc n)) inputSourcemap [] initial_state =
          Some (Inr (MapSource inputSourcemap
                (map leaf before @ MapSource stored (map leaf (children_of env m' f)) #
                 map leaf after), st4))"
    using valid order by (simp del: build.simps add: build_Suc[OF valid])
  then show "\<exists>r out.
         maybeRewriteSourcemapWithReactProd env (Suc (Suc n)) inputSourcemap verbose =
           Some (Inr (r, out)) \<and>
         rewroteSourcemap r \<and> reactVersion r = Some versionEntry \<and>
         outputSourcemap r =
           traceMappings env
             (MapSource inputSourcemap
                (map leaf before @ MapSource stored (map leaf (children_of env m' f)) #
                 map leaf after))"
    by (simp add: entry_unfold[OF valid] v4 del: build.simps)
  qed
qed







lemma buildChildren_leaves:
  assumes d: "\<And>sm u s t s'. d sm u s = Some (Inr (t, s')) \<Longrightarrow>
                 \<forall>x\<in>set (leaf_names t). SUPPORTED_PACKAGES_exec x = None"
  shows "buildChildren d (loader env verbose m) xs st = Some (Inr (ts, st')) \<Longrightarrow>
           \<forall>t\<in>set ts. \<forall>x\<in>set (leaf_names t). SUPPORTED_PACKAGES_exec x = None"
proof (induction xs arbitrary: st ts)
  case Nil
  then show ?case by simp
next
  case (Cons x xs)
  obtain source content where x: "x = (source, content)" by (cases x)
  show ?case
  proof (cases "loader env verbose m st source")
    case (Inl e)
    with Cons.prems show ?thesis by (simp add: x)
  next
    case (Inr r)
    obtain res st1 where r: "r = (res, st1)" by (cases r)
    show ?thesis
    proof (cases res)
      case None
      from loader_Inr_None[of env verbose m st source st1] Inr r None
      have nm: "SUPPORTED_PACKAGES_exec source = None" by simp
      from Cons.prems(1) Inr r None obtain ts1 where
        b: "buildChildren d (loader env verbose m) xs st1 = Some (Inr (ts1, st'))"
        and ts: "ts = OriginalSource source content # ts1"
        by (auto simp: x split: option.splits sum.splits prod.splits)
      from Cons.IH[OF b] nm ts show ?thesis by simp
    next
      case (Some sm)
      from Cons.prems(1) Inr r Some obtain t st2 ts1 where
        d1: "d sm source st1 = Some (Inr (t, st2))" and
        b: "buildChildren d (loader env verbose m) xs st2 = Some (Inr (ts1, st'))"
        and ts: "ts = t # ts1"
        by (auto simp: x split: option.splits sum.splits prod.splits)
      from d[OF d1] Cons.IH[OF b] ts show ?thesis by simp
    qed
  qed
qed

lemma build_leaves:
  "build env (loader env verbose m) n sm u st = Some (Inr (t, st')) \<Longrightarrow>
     \<forall>x\<in>set (leaf_names t). SUPPORTED_PACKAGES_exec x = None"
proof (induction n arbitrary: sm u st t st')
  case 0
  then show ?case by simp
next
  case (Suc n)
  from Suc.prems obtain m1 ts where
    b: "buildChildren (build env (loader env verbose m) n) (loader env verbose m)
       (children_of env m1 u) st = Some (Inr (ts, st'))"
    and t: "t = MapSource sm ts"
    by (auto split: option.splits sum.splits prod.splits)
  have "\<forall>t\<in>set ts. \<forall>x\<in>set (leaf_names t). SUPPORTED_PACKAGES_exec x = None"
    by (rule buildChildren_leaves[OF _ b]) (rule Suc.IH)
  with t show ?case by auto
qed

lemma no_match_returns_false:
  assumes valid: "as_SourceMapV3 inputSourcemap = Some m"
    and none: "\<forall>x\<in>set (children_of env m []). SUPPORTED_PACKAGES_exec (fst x) = None"
  shows "\<exists>r out. maybeRewriteSourcemapWithReactProd env (Suc k) inputSourcemap verbose =
            Some (Inr (r, out)) \<and> \<not> rewroteSourcemap r \<and> reactVersion r = None"
proof -
  from buildChildren_no_match[OF none, of "build env (loader env verbose m) k" env verbose m
      initial_state]
  obtain st where
    "buildChildren (build env (loader env verbose m) k) (loader env verbose m)
       (children_of env m []) initial_state = Some (Inr (map leaf (children_of env m []), st))"
    and "reactVersions st = []"
    by (auto simp: initial_state_def)
  then show ?thesis
    by (simp add: entry_unfold[OF valid] valid)
qed

text \<open>
  C6.  Let a first call on a valid document return, and let its output be of type
  \<^verbatim>\<open>SourceMapV3\<close> and list, under the names the walk resolves them to, only leaves of the
  tree it was composed from (the composer lists the original sources).  Then no source of
  the output matches the pattern, since every leaf of the first walk is a source that the
  loader did not replace, and a second call on the output returns with the flag false.
\<close>

theorem C6_second_pass_rewrites_nothing:
  assumes valid: "as_SourceMapV3 inputSourcemap = Some m"
    and first: "maybeRewriteSourcemapWithReactProd env n inputSourcemap verbose =
                  Some (Inr (r1, out1))"
    and typed: "as_SourceMapV3 (outputSourcemap r1) = Some m2"
    and names: "\<forall>t st. build env (loader env verbose m) n inputSourcemap [] initial_state =
                          Some (Inr (t, st)) \<longrightarrow>
                  fst ` set (children_of env m2 []) \<subseteq> set (leaf_names t)"
  shows "(\<forall>x\<in>set (children_of env m2 []). SUPPORTED_PACKAGES_exec (fst x) = None) \<and>
         (\<forall>k verbose2. \<exists>r2 out2.
            maybeRewriteSourcemapWithReactProd env (Suc k) (outputSourcemap r1) verbose2 =
              Some (Inr (r2, out2)) \<and>
            \<not> rewroteSourcemap r2 \<and> reactVersion r2 = None)"
proof -
  from entry_returns[OF first] valid obtain t st where
    b: "build env (loader env verbose m) n inputSourcemap [] initial_state = Some (Inr (t, st))"
    by auto
  from names b have sub: "fst ` set (children_of env m2 []) \<subseteq> set (leaf_names t)" by blast
  from build_leaves[OF b] sub
  have none: "\<forall>x\<in>set (children_of env m2 []). SUPPORTED_PACKAGES_exec (fst x) = None"
    by auto
  from no_match_returns_false[OF typed none] none show ?thesis by blast
qed

section \<open>The option \<^verbatim>\<open>verbose\<close>: claim C10\<close>

lemma loader_verbose:
  assumes "reactVersions s1 = reactVersions s2"
  shows "rel_sum (=) (rel_prod (=) (\<lambda>a b. reactVersions a = reactVersions b))
           (loader env v1 m s1 f) (loader env v2 m s2 f)"
  using assms
  by (auto simp: loader_def Let_def loadExistingSourcemap_def
           split: option.splits sum.splits)

lemma buildChildren_rel:
  assumes l: "\<And>s1 s2 f. R s1 s2 \<Longrightarrow> rel_sum (=) (rel_prod (=) R) (l1 s1 f) (l2 s2 f)"
    and d: "\<And>sm u s1 s2. R s1 s2 \<Longrightarrow>
              rel_option (rel_sum (=) (rel_prod (=) R)) (d1 sm u s1) (d2 sm u s2)"
  shows "R s1 s2 \<Longrightarrow>
           rel_option (rel_sum (=) (rel_prod (=) R))
             (buildChildren d1 l1 xs s1) (buildChildren d2 l2 xs s2)"
proof (induction xs arbitrary: s1 s2)
  case Nil
  then show ?case by simp
next
  case (Cons x xs)
  obtain source content where x: "x = (source, content)" by (cases x)
  note L = l[OF Cons.prems, of source]
  show ?case
  proof (cases "l1 s1 source")
    case (Inl e1)
    with L have "l2 s2 source = Inl e1" by (cases "l2 s2 source") auto
    with Inl show ?thesis by (simp add: x)
  next
    case (Inr r1)
    obtain res t1 where r1: "r1 = (res, t1)" by (cases r1)
    from L Inr r1 obtain t2 where l2: "l2 s2 source = Inr (res, t2)" and t: "R t1 t2"
      by (cases "l2 s2 source") auto
    show ?thesis
    proof (cases res)
      case None
      from Cons.IH[OF t] show ?thesis
        using Inr r1 l2 None
        by (cases "buildChildren d1 l1 xs t1"; cases "buildChildren d2 l2 xs t2")
           (auto simp: x elim!: rel_sum.cases)
    next
      case (Some sm)
      note D = d[OF t, of sm source]
      show ?thesis
      proof (cases "d1 sm source t1")
        case None
        with D have "d2 sm source t2 = None" by (cases "d2 sm source t2") auto
        with None Inr r1 l2 Some show ?thesis by (simp add: x)
      next
        case (Some a)
        with D obtain b where d2: "d2 sm source t2 = Some b"
          and ab: "rel_sum (=) (rel_prod (=) R) a b"
          by (cases "d2 sm source t2") auto
        show ?thesis
        proof (cases a)
          case (Inl e1)
          with ab have "b = Inl e1" by (cases b) auto
          with Inl Some d2 Inr r1 l2 \<open>res = Some sm\<close> show ?thesis by (simp add: x)
        next
          case (Inr p1)
          obtain tr u1 where p1: "p1 = (tr, u1)" by (cases p1)
          from ab Inr p1 obtain u2 where b: "b = Inr (tr, u2)" and u: "R u1 u2"
            by (cases b) auto
          from Cons.IH[OF u] show ?thesis
            using \<open>l1 s1 source = Inr r1\<close> r1 l2 \<open>res = Some sm\<close> Some d2 Inr p1 b
            by (cases "buildChildren d1 l1 xs u1"; cases "buildChildren d2 l2 xs u2")
               (auto simp: x elim!: rel_sum.cases)
        qed
      qed
    qed
  qed
qed

lemma build_rel:
  assumes l: "\<And>s1 s2 f. R s1 s2 \<Longrightarrow> rel_sum (=) (rel_prod (=) R) (l1 s1 f) (l2 s2 f)"
  shows "R s1 s2 \<Longrightarrow>
           rel_option (rel_sum (=) (rel_prod (=) R))
             (build env l1 n sm u s1) (build env l2 n sm u s2)"
proof (induction n arbitrary: sm u s1 s2)
  case 0
  show ?case by simp
next
  case (Suc n)
  show ?case
  proof (cases "as_SourceMapV3 sm")
    case None
    then show ?thesis by simp
  next
    case (Some m1)
    have "rel_option (rel_sum (=) (rel_prod (=) R))
            (buildChildren (build env l1 n) l1 (children_of env m1 u) s1)
            (buildChildren (build env l2 n) l2 (children_of env m1 u) s2)"
      by (rule buildChildren_rel[OF l _ Suc.prems]) (assumption, rule Suc.IH)
    then show ?thesis
      using Some
      by (cases "buildChildren (build env l1 n) l1 (children_of env m1 u) s1";
          cases "buildChildren (build env l2 n) l2 (children_of env m1 u) s2")
         (auto elim!: rel_sum.cases)
  qed
qed

text \<open>
  C10.  The entry point is a function of the document and of the environment (the
  registry, the stored sourcemaps and the imported packages), so two calls on equal
  documents return equal results; and the result does not depend on \<^verbatim>\<open>options.verbose\<close>,
  which only changes what is written to the console.
\<close>

theorem C10_result_does_not_depend_on_verbose:
  "returned (maybeRewriteSourcemapWithReactProd env n inputSourcemap verbose1) =
   returned (maybeRewriteSourcemapWithReactProd env n inputSourcemap verbose2)"
proof (cases "as_SourceMapV3 inputSourcemap")
  case None
  then show ?thesis
    by (simp add: returned_def maybeRewriteSourcemapWithReactProd_def)
next
  case (Some m)
  have "rel_option (rel_sum (=) (rel_prod (=) (\<lambda>a b. reactVersions a = reactVersions b)))
          (build env (loader env verbose1 m) n inputSourcemap [] initial_state)
          (build env (loader env verbose2 m) n inputSourcemap [] initial_state)"
    by (rule build_rel) (rule loader_verbose, simp_all)
  then show ?thesis
    by (cases "build env (loader env verbose1 m) n inputSourcemap [] initial_state";
        cases "build env (loader env verbose2 m) n inputSourcemap [] initial_state")
       (auto simp: returned_def entry_unfold[OF Some] elim!: rel_sum.cases)
qed

section \<open>The claims about the result at concrete documents\<close>

lemma sample_index_no_match: "SUPPORTED_PACKAGES_exec ''webpack://x/src/index.js'' = None"
  by simp

lemma sample_js_no_match:
  "SUPPORTED_PACKAGES_exec ''webpack://x/node_modules/react-dom/cjs/react-dom.production.js'' = None"
  by simp

lemma sample_stored_typed:
  "as_SourceMapV3 sample_stored_map =
     Some \<lparr>file' = None, names = [], sourceRoot = None,
           sources = [Some ''react-dom.production.js''], sourcesContent = None\<rparr>"
  by (simp add: sample_stored_map_def as_SourceMapV3_def isSourceMapV3_def)

lemma sample_stored_children:
  "children_of sample_env
     \<lparr>file' = None, names = [], sourceRoot = None,
      sources = [Some ''react-dom.production.js''], sourcesContent = None\<rparr> sample_url =
   [(''webpack://x/node_modules/react-dom/cjs/react-dom.production.js'', None)]"
  by (simp add: children_of_def sample_defs sample_url_def endsWith_def sourcesContentAt_def
        suffix_to_prefix)

lemma sample_stored_loads:
  "loadExistingSourcemap sample_env sample_version False [] = Inr (sample_stored_map, [])"
  by (simp add: loadExistingSourcemap_def loadSourcemap_def sample_env_def sample_version_def
        sample_stored_map_def isSourceMapV3_def)

lemma sample_registered_children':
  "children_of sample_env
     \<lparr>file' = None, names = [], sourceRoot = None,
      sources = [Some sample_url, Some ''webpack://x/src/index.js''],
      sourcesContent = Some [Some ''react-dom 18.2.0 min'', Some ''console.log(1)'']\<rparr> [] =
   [] @ (sample_url, Some ''react-dom 18.2.0 min'') #
     [(''webpack://x/src/index.js'', Some ''console.log(1)'')]"
  using sample_registered_children[where ex = "existsSync sample_env"
      and parse = "JSON_parse sample_env"] by simp

lemma sample_registered_found':
  "findMatchingReactDOMVersion sample_env sample_url
     \<lparr>file' = None, names = [], sourceRoot = None,
      sources = [Some sample_url, Some ''webpack://x/src/index.js''],
      sourcesContent = Some [Some ''react-dom 18.2.0 min'', Some ''console.log(1)'']\<rparr> =
   Inr sample_version"
  using sample_registered_found[where ex = "existsSync sample_env"
      and parse = "JSON_parse sample_env"] by simp

text \<open>At \<open>sample_registered\<close>, whose first source is the registered build.\<close>

lemma sample_registered_reported:
  "\<exists>r out. maybeRewriteSourcemapWithReactProd sample_env 2 sample_registered False =
              Some (Inr (r, out)) \<and>
     rewroteSourcemap r \<and> reactVersion r = Some sample_version \<and>
     outputSourcemap r =
       sample_traceMappings
         (MapSource sample_registered
            [MapSource sample_stored_map
               [OriginalSource ''webpack://x/node_modules/react-dom/cjs/react-dom.production.js''
                  None],
             OriginalSource ''webpack://x/src/index.js'' (Some ''console.log(1)'')])"
proof -
  have tm: "traceMappings sample_env = sample_traceMappings" by (simp add: sample_env_def)
  have located: "filenameIndex sample_env sample_url
     \<lparr>file' = None, names = [], sourceRoot = None,
      sources = [Some sample_url, Some ''webpack://x/src/index.js''],
      sourcesContent = Some [Some ''react-dom 18.2.0 min'', Some ''console.log(1)'']\<rparr> = Some 0"
    by (simp add: filenameIndex_def indexOf_def)
  have embedded: "sourcesContentAt
     \<lparr>file' = None, names = [], sourceRoot = None,
      sources = [Some sample_url, Some ''webpack://x/src/index.js''],
      sourcesContent = Some [Some ''react-dom 18.2.0 min'', Some ''console.log(1)'']\<rparr> 0 =
     Some ''react-dom 18.2.0 min''"
    by (simp add: sourcesContentAt_def)
  have registered: "hashesToSourcemapDescriptors sample_env
      (hashSHA256 sample_env ''react-dom 18.2.0 min'') = Some sample_version"
    by (simp add: sample_env_def hashSHA256_def)
  from first_resolved_reference_is_reported[OF sample_registered_typed
      sample_registered_children' _ _ located embedded _ registered, THEN conjunct2, rule_format,
      of sample_stored_map _ 0 False]
  show ?thesis
    by (simp add: sample_url_matches sample_index_no_match sample_js_no_match sample_stored_loads
          sample_stored_typed sample_stored_children tm numeral_2_eq_2)
qed










lemma sample_registered_walk:
  "build sample_env
     (loader sample_env verbose
        \<lparr>file' = None, names = [], sourceRoot = None,
         sources = [Some sample_url, Some ''webpack://x/src/index.js''],
         sourcesContent = Some [Some ''react-dom 18.2.0 min'', Some ''console.log(1)'']\<rparr>)
     (Suc (Suc 0)) sample_registered [] initial_state =
   Some (Inr (MapSource sample_registered
            [MapSource sample_stored_map
               [OriginalSource ''webpack://x/node_modules/react-dom/cjs/react-dom.production.js''
                  None],
             OriginalSource ''webpack://x/src/index.js'' (Some ''console.log(1)'')],
          \<lparr>reactVersions = [sample_version],
           console =
             (if verbose
              then [LogFoundInFile ''react-dom.production.min.js'' sample_url,
                    LogFoundMatchingVersion ''react-dom.production.min.js'' ''18.2.0'',
                    LogSkippingSourcemap
                      ''webpack://x/node_modules/react-dom/cjs/react-dom.production.js'',
                    LogSkippingSourcemap ''webpack://x/src/index.js'']
              else [])\<rparr>))"
proof -
  have g: "truthy sample_stored_map" "isSourceMapV3 sample_stored_map"
    by (simp_all add: sample_stored_map_def isSourceMapV3_def)
  have l: "loadExistingSourcemap sample_env sample_version False out = Inr (sample_stored_map, out)"
    for out
    using loadExistingSourcemap_console[OF sample_stored_loads] by simp
  have v: "version sample_version = ''18.2.0''" by (simp add: sample_version_def)
  show ?thesis
    by (cases verbose)
       (simp_all add: sample_registered_typed sample_registered_children' sample_stored_typed
          sample_stored_children loader_def Let_def sample_url_matches sample_index_no_match
          sample_js_no_match sample_registered_found' l g v initial_state_def)
qed

lemma sample_registered_returns:
  "maybeRewriteSourcemapWithReactProd sample_env 2 sample_registered verbose =
     Some (Inr (\<lparr>outputSourcemap =
                   sample_traceMappings
                     (MapSource sample_registered
                        [MapSource sample_stored_map
                           [OriginalSource
                              ''webpack://x/node_modules/react-dom/cjs/react-dom.production.js''
                              None],
                         OriginalSource ''webpack://x/src/index.js'' (Some ''console.log(1)'')]),
                 rewroteSourcemap = True, reactVersion = Some sample_version\<rparr>,
                if verbose
                then [LogFoundInFile ''react-dom.production.min.js'' sample_url,
                      LogFoundMatchingVersion ''react-dom.production.min.js'' ''18.2.0'',
                      LogSkippingSourcemap
                        ''webpack://x/node_modules/react-dom/cjs/react-dom.production.js'',
                      LogSkippingSourcemap ''webpack://x/src/index.js'']
                else []))"
proof -
  have tm: "traceMappings sample_env = sample_traceMappings" by (simp add: sample_env_def)
  show ?thesis
    using sample_registered_walk[of verbose]
    by (simp add: entry_unfold[OF sample_registered_typed] numeral_2_eq_2 tm del: build.simps)
qed

text \<open>
  C3.  The document \<open>sample_with_root\<close> is valid and has exactly one source; the source
  matches the pattern, and its content is registered, with a stored sourcemap that loads.
  Because the document has a \<^verbatim>\<open>sourceRoot\<close>, the walk presents the source as
  \<^verbatim>\<open>webpack://x/react-dom.production.min.js\<close>; the matcher looks for that name among
  the entries as they are written and as they resolve against the empty base, finds
  neither, and the call throws instead of returning a result.  The same build, listed
  under its full name in the document \<open>sample_registered\<close>, which has no
  \<^verbatim>\<open>sourceRoot\<close>, is resolved and reported.
\<close>

theorem C3_reference_under_sourceRoot_is_not_found:
  "as_SourceMapV3 sample_with_root =
     Some \<lparr>file' = None, names = [], sourceRoot = Some ''webpack://x/'',
           sources = [Some ''react-dom.production.min.js''],
           sourcesContent = Some [Some ''react-dom 18.2.0 min'']\<rparr> \<and>
   resolvedSource sample_env (Some ''webpack://x/'') [] (Some ''react-dom.production.min.js'') =
     ''webpack://x/react-dom.production.min.js'' \<and>
   SUPPORTED_PACKAGES_exec ''webpack://x/react-dom.production.min.js'' =
     Some ''react-dom.production.min.js'' \<and>
   hashesToSourcemapDescriptors sample_env (hashSHA256 sample_env ''react-dom 18.2.0 min'') =
     Some sample_version \<and>
   loadExistingSourcemap sample_env sample_version False [] = Inr (sample_stored_map, []) \<and>
   maybeRewriteSourcemapWithReactProd sample_env 2 sample_with_root False =
     Some (Inl (CannotFindInInputSourcemap ''webpack://x/react-dom.production.min.js'')) \<and>
   returned (maybeRewriteSourcemapWithReactProd sample_env 2 sample_registered False) =
     Some (Inr \<lparr>outputSourcemap =
                   sample_traceMappings
                     (MapSource sample_registered
                        [MapSource sample_stored_map
                           [OriginalSource
                              ''webpack://x/node_modules/react-dom/cjs/react-dom.production.js''
                              None],
                         OriginalSource ''webpack://x/src/index.js'' (Some ''console.log(1)'')]),
                 rewroteSourcemap = True, reactVersion = Some sample_version\<rparr>)"
proof -
  let ?m = "\<lparr>file' = None, names = [], sourceRoot = Some ''webpack://x/'',
           sources = [Some ''react-dom.production.min.js''],
           sourcesContent = Some [Some ''react-dom 18.2.0 min'']\<rparr>"
  have u: "findMatchingReactDOMVersion sample_env ''webpack://x/react-dom.production.min.js'' ?m =
     Inl (CannotFindInInputSourcemap ''webpack://x/react-dom.production.min.js'')"
    by (simp add: matcher_defs sample_env_def sample_resolveUri_def)
  have l: "loader sample_env False ?m st ''webpack://x/react-dom.production.min.js'' =
     Inl (CannotFindInInputSourcemap ''webpack://x/react-dom.production.min.js'')" for st
    by (rule loader_unresolved[OF _ u]) simp
  have c: "children_of sample_env ?m [] =
     [] @ (''webpack://x/react-dom.production.min.js'', Some ''react-dom 18.2.0 min'') # []"
    by (simp add: sample_with_root_children)
  have "maybeRewriteSourcemapWithReactProd sample_env (Suc (Suc 0)) sample_with_root False =
     Some (Inl (CannotFindInInputSourcemap ''webpack://x/react-dom.production.min.js''))"
    by (rule entry_throws_at_first_match[OF sample_with_root_typed c _ l]) simp
  moreover have "hashesToSourcemapDescriptors sample_env
      (hashSHA256 sample_env ''react-dom 18.2.0 min'') = Some sample_version"
    by (simp add: sample_env_def hashSHA256_def)
  moreover have "resolvedSource sample_env (Some ''webpack://x/'') []
      (Some ''react-dom.production.min.js'') = ''webpack://x/react-dom.production.min.js''"
    by (simp add: sample_env_def sample_resolvedSource_def sample_resolveUri_def endsWith_def
          suffix_to_prefix)
  ultimately show ?thesis
    by (simp add: sample_with_root_typed sample_stored_loads numeral_2_eq_2
          sample_registered_returns[of False, simplified numeral_2_eq_2] returned_def)
qed

text \<open>C3 at the two documents, without the console.\<close>

theorem C3_witness:
  "returned (maybeRewriteSourcemapWithReactProd sample_env 2 sample_with_root False) =
     Some (Inl (CannotFindInInputSourcemap ''webpack://x/react-dom.production.min.js'')) \<and>
   maybeRewriteSourcemapWithReactProd sample_env 2 sample_with_root False \<noteq>
     maybeRewriteSourcemapWithReactProd sample_env 2 sample_registered False"
  using C3_reference_under_sourceRoot_is_not_found
  by (auto simp: returned_def)

lemma sample_registered_composed:
  "composedMappings sample_decodedMappings
     (MapSource sample_registered
        [MapSource sample_stored_map
           [OriginalSource ''webpack://x/node_modules/react-dom/cjs/react-dom.production.js''
              None],
         OriginalSource ''webpack://x/src/index.js'' (Some ''console.log(1)'')]) =
   [[(0, Some (''webpack://x/node_modules/react-dom/cjs/react-dom.production.js'', 0, 0, None))]]"
  by (simp add: sample_decodedMappings_def sample_registered_def sample_doc_def
        sample_stored_map_def List.map_filter_simps recorded_def name_of_def name_at_def
        as_SourceMapV3_def isSourceMapV3_def)

lemma sample_output_typed:
  "as_SourceMapV3
     (sample_traceMappings
        (MapSource sample_registered
           [MapSource sample_stored_map
              [OriginalSource ''webpack://x/node_modules/react-dom/cjs/react-dom.production.js''
                 None],
            OriginalSource ''webpack://x/src/index.js'' (Some ''console.log(1)'')])) =
   Some \<lparr>file' = None, names = [], sourceRoot = None,
         sources = [Some ''webpack://x/node_modules/react-dom/cjs/react-dom.production.js'',
                    Some ''webpack://x/src/index.js''],
         sourcesContent = None\<rparr>"
  unfolding sample_traceMappings_def sample_registered_composed
  by (simp add: Let_def as_SourceMapV3_def isSourceMapV3_def sample_names_def
        List.map_filter_simps)

lemma sample_output_children:
  "children_of sample_env
     \<lparr>file' = None, names = [], sourceRoot = None,
      sources = [Some ''webpack://x/node_modules/react-dom/cjs/react-dom.production.js'',
                 Some ''webpack://x/src/index.js''],
      sourcesContent = None\<rparr> [] =
   [(''webpack://x/node_modules/react-dom/cjs/react-dom.production.js'', None),
    (''webpack://x/src/index.js'', None)]"
  by (simp add: children_of_def sample_defs endsWith_def sourcesContentAt_def upt_rec)

text \<open>C6 at \<open>sample_registered\<close>: the first call rewrites, the second does not.\<close>

theorem C6_witness:
  "\<exists>r1 out1 r2 out2.
     maybeRewriteSourcemapWithReactProd sample_env 2 sample_registered False =
       Some (Inr (r1, out1)) \<and>
     rewroteSourcemap r1 \<and>
     maybeRewriteSourcemapWithReactProd sample_env 1 (outputSourcemap r1) True =
       Some (Inr (r2, out2)) \<and>
     \<not> rewroteSourcemap r2 \<and> reactVersion r2 = None"
proof -
  let ?r1 = "\<lparr>outputSourcemap =
                   sample_traceMappings
                     (MapSource sample_registered
                        [MapSource sample_stored_map
                           [OriginalSource
                              ''webpack://x/node_modules/react-dom/cjs/react-dom.production.js''
                              None],
                         OriginalSource ''webpack://x/src/index.js'' (Some ''console.log(1)'')]),
                 rewroteSourcemap = True, reactVersion = Some sample_version\<rparr>"
  have first: "maybeRewriteSourcemapWithReactProd sample_env 2 sample_registered False =
                 Some (Inr (?r1, []))"
    using sample_registered_returns[of False] by simp
  have typed: "as_SourceMapV3 (outputSourcemap ?r1) =
     Some \<lparr>file' = None, names = [], sourceRoot = None,
         sources = [Some ''webpack://x/node_modules/react-dom/cjs/react-dom.production.js'',
                    Some ''webpack://x/src/index.js''],
         sourcesContent = None\<rparr>"
    by (simp add: sample_output_typed)
  from C6_second_pass_rewrites_nothing[OF sample_registered_typed first typed, THEN conjunct2,
      rule_format, of 0 True]
  obtain r2 out2 where second:
     "maybeRewriteSourcemapWithReactProd sample_env (Suc 0) (outputSourcemap ?r1) True =
       Some (Inr (r2, out2))" "\<not> rewroteSourcemap r2" "reactVersion r2 = None"
    by (auto simp: sample_registered_walk numeral_2_eq_2 sample_output_children
             simp del: build.simps)
  show ?thesis
    apply (rule exI[of _ ?r1], rule exI[of _ "[]"], rule exI[of _ r2], rule exI[of _ out2])
    using first second by simp
qed

text \<open>
  C10 at \<open>sample_registered\<close>: with and without \<^verbatim>\<open>verbose\<close> the results are equal, the
  console lines are not.
\<close>

theorem C10_witness:
  "returned (maybeRewriteSourcemapWithReactProd sample_env 2 sample_registered True) =
   returned (maybeRewriteSourcemapWithReactProd sample_env 2 sample_registered False) \<and>
   maybeRewriteSourcemapWithReactProd sample_env 2 sample_registered True \<noteq>
   maybeRewriteSourcemapWithReactProd sample_env 2 sample_registered False"
  using C10_result_does_not_depend_on_verbose[of sample_env 2 sample_registered True False]
  by (simp add: sample_registered_returns)


end
